theory Spec2Isabelle
  imports Main "HOL-Library.AList"
begin

section \<open>Values of the program\<close>

text \<open>
  The module \<^verbatim>\<open>custom_components/platerecognizer/image_processing.py\<close> handles decoded
  JSON documents, Python dictionaries, exceptions and a handful of calls into its host
  (HTTP, the event bus, the clock, the imaging library, the logger).

  A decoded JSON document is a \<open>json\<close> value. A dictionary is the list of its items in
  insertion order. A float is carried by its literal text: the module never computes with
  one except in the one subtraction of \<open>get_statistics\<close>, whose float case is
  left to the environment.
\<close>

datatype json =
    JNull
  | JBool bool
  | JInt int
  | JFloat string
  | JStr string
  | JList "json list"
  | JObj "(string \<times> json) list"

type_synonym dict = "(string \<times> json) list"

datatype exn =
    KeyError string
  | TypeError
  | RequestError string
  | ValueError string
  | UnidentifiedImageError
  | OSError string

type_synonym bytes = "nat list"

datatype pil_image = RGB bytes

text \<open>\<open>Div folder file\<close> is the path \<^verbatim>\<open>folder / file\<close> of pathlib.\<close>

datatype path = Div string string

record datetime =
  year :: nat
  month :: nat
  day :: nat
  hour :: nat
  minute :: nat
  second :: nat

text \<open>The calls that leave the module, in the order they are made.\<close>

datatype effect =
    HttpPost string bytes "(string \<times> string) list"
  | HttpGet string "(string \<times> string) list"
  | LogError string exn
  | LogWarning string
  | LogInfo string path
  | BusFire string dict
  | ImageOpen bytes
  | ImgSave path pil_image

text \<open>
  What the host answers during one call: the decoded body of the POST and of the GET (or
  the exception that \<^verbatim>\<open>requests\<close> or the JSON decoder raised), the clock, the imaging
  library's decoder, the outcome of writing a file, and float subtraction.
\<close>

record env =
  post_json :: "exn + json"
  get_json :: "exn + json"
  now :: datetime
  image_open :: "bytes \<Rightarrow> exn + pil_image"
  img_save :: "path \<Rightarrow> exn option"
  float_sub :: "json \<Rightarrow> json \<Rightarrow> exn + json"

section \<open>Module constants\<close>

definition PLATE_READER_URL :: string where
  "PLATE_READER_URL = ''https://api.platerecognizer.com/v1/plate-reader/''"

definition STATS_URL :: string where
  "STATS_URL = ''https://api.platerecognizer.com/v1/statistics/''"

definition EVENT_VEHICLE_DETECTED :: string where
  "EVENT_VEHICLE_DETECTED = ''platerecognizer.vehicle_detected''"

definition ATTR_PLATE :: string where "ATTR_PLATE = ''plate''"
definition ATTR_CONFIDENCE :: string where "ATTR_CONFIDENCE = ''confidence''"
definition ATTR_REGION_CODE :: string where "ATTR_REGION_CODE = ''region_code''"
definition ATTR_VEHICLE_TYPE :: string where "ATTR_VEHICLE_TYPE = ''vehicle_type''"

text \<open>\<^verbatim>\<open>homeassistant.const.ATTR_ENTITY_ID\<close>.\<close>

definition ATTR_ENTITY_ID :: string where "ATTR_ENTITY_ID = ''entity_id''"

definition CONF_SAVE_FILE_FOLDER :: string where
  "CONF_SAVE_FILE_FOLDER = ''save_file_folder''"
definition CONF_SAVE_TIMESTAMPTED_FILE :: string where
  "CONF_SAVE_TIMESTAMPTED_FILE = ''save_timestamped_file''"
definition CONF_ALWAYS_SAVE_LATEST_JPG :: string where
  "CONF_ALWAYS_SAVE_LATEST_JPG = ''always_save_latest_jpg''"

section \<open>Python operations the module uses\<close>

definition bind :: "exn + 'a \<Rightarrow> ('a \<Rightarrow> exn + 'b) \<Rightarrow> exn + 'b" where
  "bind m f = (case m of Inl e \<Rightarrow> Inl e | Inr v \<Rightarrow> f v)"

text \<open>\<^verbatim>\<open>obj[key]\<close> with a string key: only a dictionary holding the key answers.\<close>

fun getitem :: "json \<Rightarrow> string \<Rightarrow> exn + json" where
  "getitem (JObj kv) k = (case map_of kv k of None \<Rightarrow> Inl (KeyError k) | Some v \<Rightarrow> Inr v)"
| "getitem _ k = Inl TypeError"

text \<open>\<^verbatim>\<open>for r in obj\<close>: a list gives its items, a dictionary its keys, a string its
  characters; nothing else is iterable.\<close>

fun py_iter :: "json \<Rightarrow> exn + json list" where
  "py_iter (JList xs) = Inr xs"
| "py_iter (JObj kv) = Inr (map (\<lambda>p. JStr (fst p)) kv)"
| "py_iter (JStr s) = Inr (map (\<lambda>c. JStr [c]) s)"
| "py_iter _ = Inl TypeError"

fun as_int :: "json \<Rightarrow> int option" where
  "as_int (JInt i) = Some i"
| "as_int (JBool b) = Some (if b then 1 else 0)"
| "as_int _ = None"

fun is_number :: "json \<Rightarrow> bool" where
  "is_number (JInt i) = True"
| "is_number (JBool b) = True"
| "is_number (JFloat s) = True"
| "is_number _ = False"

text \<open>\<^verbatim>\<open>a - b\<close>: integers (and booleans, which are integers) subtract exactly, a float
  operand hands the subtraction to the environment, anything else is a TypeError.\<close>

definition py_sub :: "env \<Rightarrow> json \<Rightarrow> json \<Rightarrow> exn + json" where
  "py_sub ev a b =
     (case (as_int a, as_int b) of
        (Some x, Some y) \<Rightarrow> Inr (JInt (x - y))
      | _ \<Rightarrow> if is_number a \<and> is_number b then float_sub ev a b else Inl TypeError)"

text \<open>\<^verbatim>\<open>d.update({k: v})\<close> on a dictionary.\<close>

definition dict_update :: "string \<Rightarrow> json \<Rightarrow> dict \<Rightarrow> dict" where
  "dict_update k v d = AList.update k v d"

fun json_update :: "json \<Rightarrow> string \<Rightarrow> json \<Rightarrow> exn + json" where
  "json_update (JObj kv) k v = Inr (JObj (dict_update k v kv))"
| "json_update _ k v = Inl TypeError"

text \<open>\<^verbatim>\<open>f"{x}"\<close> of a string or of None.\<close>

fun py_str :: "string option \<Rightarrow> string" where
  "py_str None = ''None''"
| "py_str (Some s) = s"

fun opt_json :: "string option \<Rightarrow> json" where
  "opt_json None = JNull"
| "opt_json (Some s) = JStr s"

section \<open>The entity\<close>

text \<open>
  The fields of \<open>PlateRecognizerEntity\<close>, under their source names without the leading
  underscore. \<open>save_file_folder\<close> is None or a Path, kept by its string form.
  \<open>entity_id\<close> is the attribute of the host's base class, None until the host registers
  the entity. The vehicle records are dictionaries on the heap: \<open>vehicles\<close> holds their
  addresses, so that a mutation through one reference would be seen through every other.
\<close>

record entity =
  headers :: "(string \<times> string) list"
  camera :: string
  name :: string
  save_file_folder :: "string option"
  save_timestamped_file :: bool
  always_save_latest_jpg :: bool
  state :: "nat option"
  results :: json
  vehicles :: "nat list"
  statistics :: json
  last_detection :: "string option"
  entity_id :: "string option"

record world =
  self :: entity
  heap :: "dict list"
  trace :: "effect list"

definition emit :: "effect \<Rightarrow> world \<Rightarrow> world" where
  "emit x w = w\<lparr>trace := trace w @ [x]\<rparr>"

subsection \<open>get_statistics\<close>

text \<open>The body of the \<^verbatim>\<open>try\<close>: the value assigned to \<open>statistics\<close>, or the exception.\<close>

definition fetch_statistics :: "env \<Rightarrow> exn + json" where
  "fetch_statistics ev =
     bind (get_json ev) (\<lambda>response.
     bind (getitem response ''total_calls'') (\<lambda>total.
     bind (getitem response ''usage'') (\<lambda>usage.
     bind (getitem usage ''calls'') (\<lambda>calls.
     bind (py_sub ev total calls) (\<lambda>calls_remaining.
     json_update response ''calls_remaining'' calls_remaining)))))"

definition get_statistics :: "env \<Rightarrow> world \<Rightarrow> world" where
  "get_statistics ev w =
     (let w1 = emit (HttpGet STATS_URL (headers (self w))) w in
      (case fetch_statistics ev of
         Inl exc \<Rightarrow> emit (LogError ''platerecognizer error getting statistics: %s'' exc) w1
       | Inr response \<Rightarrow> w1\<lparr>self := (self w1)\<lparr>statistics := response\<rparr>\<rparr>))"

subsection \<open>The clock\<close>

text \<open>
  \<^verbatim>\<open>dt_util.now().strftime(DATETIME_FORMAT)\<close> with
  \<^verbatim>\<open>DATETIME_FORMAT = "%Y-%m-%d_%H-%M-%S"\<close>: the fields in decimal, the year on four
  digits and the others on two (the years 1000 to 9999 of a running clock).
\<close>

definition digit :: "nat \<Rightarrow> char" where
  "digit n = ''0123456789'' ! (n mod 10)"

definition pad2 :: "nat \<Rightarrow> string" where
  "pad2 n = [digit (n div 10), digit n]"

definition pad4 :: "nat \<Rightarrow> string" where
  "pad4 n = [digit (n div 1000), digit (n div 100), digit (n div 10), digit n]"

definition strftime :: "datetime \<Rightarrow> string" where
  "strftime t =
     pad4 (year t) @ ''-'' @ pad2 (month t) @ ''-'' @ pad2 (day t) @ ''_'' @
     pad2 (hour t) @ ''-'' @ pad2 (minute t) @ ''-'' @ pad2 (second t)"

text \<open>The shape \<^verbatim>\<open>YYYY-MM-DD_HH-MM-SS\<close>, read off a string.\<close>

definition is_digit :: "char \<Rightarrow> bool" where
  "is_digit c = (c \<in> set ''0123456789'')"

fun is_timestamp :: "string \<Rightarrow> bool" where
  "is_timestamp [y1, y2, y3, y4, a, m1, m2, b, d1, d2, c, h1, h2, d, n1, n2, e, s1, s2] =
     (list_all is_digit [y1, y2, y3, y4, m1, m2, d1, d2, h1, h2, n1, n2, s1, s2] \<and>
      a = CHR ''-'' \<and> b = CHR ''-'' \<and> c = CHR ''_'' \<and> d = CHR ''-'' \<and> e = CHR ''-'')"
| "is_timestamp _ = False"

subsection \<open>fire_vehicle_detected_event\<close>

text \<open>
  \<^verbatim>\<open>vehicle.copy()\<close> allocates a new dictionary with the items of the one at address
  \<open>a\<close>; \<^verbatim>\<open>update\<close> writes to the copy; the bus receives the copy. The addresses the
  module passes are those of \<open>vehicles\<close>, allocated just before.
\<close>

definition fire_vehicle_detected_event :: "nat \<Rightarrow> world \<Rightarrow> world" where
  "fire_vehicle_detected_event a w =
     (let vehicle_copy = length (heap w);
          h1 = heap w @ [heap w ! a];
          h2 = h1[vehicle_copy :=
                    dict_update ATTR_ENTITY_ID (opt_json (entity_id (self w))) (h1 ! vehicle_copy)]
      in emit (BusFire EVENT_VEHICLE_DETECTED (h2 ! vehicle_copy)) (w\<lparr>heap := h2\<rparr>))"

text \<open>The dictionary the bus receives for the vehicle record \<open>d\<close>.\<close>

definition payload :: "world \<Rightarrow> dict \<Rightarrow> dict" where
  "payload w d = dict_update ATTR_ENTITY_ID (opt_json (entity_id (self w))) d"

text \<open>\<^verbatim>\<open>for vehicle in self._vehicles: self.fire_vehicle_detected_event(vehicle)\<close>\<close>

fun fire_all :: "nat list \<Rightarrow> world \<Rightarrow> world" where
  "fire_all [] w = w"
| "fire_all (a # as) w = fire_all as (fire_vehicle_detected_event a w)"

subsection \<open>save_image\<close>

text \<open>
  A call returns the world it leaves and the exception that escapes it, if any. Only
  \<open>UnidentifiedImageError\<close> is caught around the decoding; \<^verbatim>\<open>None / "..."\<close> is a
  TypeError; a failed write is not caught. The loop over the vehicles does nothing.
\<close>

definition save_image :: "env \<Rightarrow> bytes \<Rightarrow> world \<Rightarrow> world \<times> exn option" where
  "save_image ev picture w =
     (let w1 = emit (ImageOpen picture) w in
      (case image_open ev picture of
         Inl exc \<Rightarrow>
           (if exc = UnidentifiedImageError
            then (emit (LogWarning ''platerecognizer unable to save image, bad data'') w1, None)
            else (w1, Some exc))
       | Inr img \<Rightarrow>
           (case save_file_folder (self w1) of
              None \<Rightarrow> (w1, Some TypeError)
            | Some folder \<Rightarrow>
                (let latest_save_path = Div folder (name (self w1) @ ''_latest.png'');
                     w2 = emit (ImgSave latest_save_path img) w1
                 in (case img_save ev latest_save_path of
                       Some exc \<Rightarrow> (w2, Some exc)
                     | None \<Rightarrow>
                         (if save_timestamped_file (self w2)
                          then
                            (let timestamp_save_path =
                                   Div folder (name (self w2) @ ''_'' @
                                               py_str (last_detection (self w2)) @ ''.png'');
                                 w3 = emit (ImgSave timestamp_save_path img) w2
                             in (case img_save ev timestamp_save_path of
                                   Some exc \<Rightarrow> (w3, Some exc)
                                 | None \<Rightarrow>
                                     (emit (LogInfo ''platerecognizer saved file %s''
                                              timestamp_save_path) w3, None)))
                          else (w2, None)))))))"

subsection \<open>process_image\<close>

text \<open>One dictionary display of the comprehension: the four lookups in their order.\<close>

definition vehicle_of :: "json \<Rightarrow> exn + dict" where
  "vehicle_of r =
     bind (getitem r ''plate'') (\<lambda>plate.
     bind (getitem r ''score'') (\<lambda>score.
     bind (getitem r ''region'') (\<lambda>region.
     bind (getitem region ''code'') (\<lambda>code.
     bind (getitem r ''vehicle'') (\<lambda>vehicle.
     bind (getitem vehicle ''type'') (\<lambda>type.
     Inr [(ATTR_PLATE, plate), (ATTR_CONFIDENCE, score),
          (ATTR_REGION_CODE, code), (ATTR_VEHICLE_TYPE, type)]))))))"

fun vehicles_of :: "json list \<Rightarrow> exn + dict list" where
  "vehicles_of [] = Inr []"
| "vehicles_of (r # rs) =
     bind (vehicle_of r) (\<lambda>v. bind (vehicles_of rs) (\<lambda>vs. Inr (v # vs)))"

text \<open>Allocation of a list of new dictionaries: they go to the end of the heap.\<close>

definition alloc_all :: "dict list \<Rightarrow> world \<Rightarrow> world \<times> nat list" where
  "alloc_all ds w =
     (w\<lparr>heap := heap w @ ds\<rparr>, [length (heap w) ..< length (heap w) + length ds])"

text \<open>
  The \<^verbatim>\<open>try\<close> block. \<open>results\<close> is assigned once the body has a \<open>results\<close> key;
  \<open>vehicles\<close> is assigned only when the whole comprehension has run. What is returned
  beside the world is the exception handed to the \<^verbatim>\<open>except\<close> clause.
\<close>

definition recognise :: "env \<Rightarrow> world \<Rightarrow> world \<times> exn option" where
  "recognise ev w =
     (case bind (post_json ev) (\<lambda>body. getitem body ''results'') of
        Inl exc \<Rightarrow> (w, Some exc)
      | Inr res \<Rightarrow>
          (let w1 = w\<lparr>self := (self w)\<lparr>results := res\<rparr>\<rparr> in
           (case bind (py_iter res) vehicles_of of
              Inl exc \<Rightarrow> (w1, Some exc)
            | Inr ds \<Rightarrow>
                (let (w2, as) = alloc_all ds w1
                 in (w2\<lparr>self := (self w2)\<lparr>vehicles := as\<rparr>\<rparr>, None)))))"

text \<open>Lines 110 to 132: the reset, the recognition, the state, the stamp and the events.\<close>

definition detect :: "env \<Rightarrow> bytes \<Rightarrow> world \<Rightarrow> world" where
  "detect ev picture w =
     (let (w0, as0) = alloc_all [[]] w;
          w1 = w0\<lparr>self := (self w0)\<lparr>results := JObj [], vehicles := as0\<rparr>\<rparr>;
          w2 = emit (HttpPost PLATE_READER_URL picture (headers (self w1))) w1;
          (w3, raised) = recognise ev w2;
          w4 = (case raised of
                  None \<Rightarrow> w3
                | Some exc \<Rightarrow>
                    emit (LogError ''platerecognizer error processing image: %s'' exc) w3);
          n = length (vehicles (self w4));
          w5 = w4\<lparr>self := (self w4)\<lparr>state := Some n\<rparr>\<rparr>
      in if n > 0
         then fire_all (vehicles (self w5))
                (w5\<lparr>self := (self w5)\<lparr>last_detection := Some (strftime (now ev))\<rparr>\<rparr>)
         else w5)"

text \<open>Lines 133 to 136. \<open>state\<close> has just been assigned, so the comparison
  \<^verbatim>\<open>self._state > 0\<close> never meets None (which would be a TypeError).\<close>

definition process_image :: "env \<Rightarrow> bytes \<Rightarrow> world \<Rightarrow> world \<times> exn option" where
  "process_image ev picture w =
     (let w6 = detect ev picture w;
          (w7, escaped) =
             (case save_file_folder (self w6) of
                None \<Rightarrow> (w6, None)
              | Some folder \<Rightarrow>
                  (case state (self w6) of
                     None \<Rightarrow> (w6, Some TypeError)
                   | Some n \<Rightarrow>
                       (if n > 0 \<or> always_save_latest_jpg (self w6)
                        then save_image ev picture w6
                        else (w6, None))))
      in (case escaped of
            Some exc \<Rightarrow> (w7, Some exc)
          | None \<Rightarrow> (get_statistics ev w7, None)))"

subsection \<open>Construction\<close>

text \<open>
  \<^verbatim>\<open>__init__\<close>. \<open>split_entity_id\<close> is the host's function: it gives the domain and the
  object id of an entity id, or raises. \<^verbatim>\<open>if name:\<close> is false for None and for the empty
  string. The new object lives in a world of its own.
\<close>

definition construct ::
  "(string \<Rightarrow> exn + string \<times> string) \<Rightarrow> env \<Rightarrow> string \<Rightarrow> string option \<Rightarrow> bool \<Rightarrow> bool \<Rightarrow>
   string \<Rightarrow> string option \<Rightarrow> exn + world" where
  "construct split_entity_id ev api_token folder timestamped always camera_entity name_arg =
     bind (if name_arg \<noteq> None \<and> name_arg \<noteq> Some []
           then Inr (the name_arg)
           else bind (split_entity_id camera_entity)
                  (\<lambda>parts. Inr (''platerecognizer_'' @ snd parts)))
       (\<lambda>nm.
          let e = \<lparr>headers = [(''Authorization'', ''Token '' @ api_token)],
                   camera = camera_entity,
                   name = nm,
                   save_file_folder = folder,
                   save_timestamped_file = timestamped,
                   always_save_latest_jpg = always,
                   state = None,
                   results = JObj [],
                   vehicles = [0],
                   statistics = JObj [],
                   last_detection = None,
                   entity_id = None\<rparr>
          in Inr (get_statistics ev \<lparr>self = e, heap = [[]], trace = []\<rparr>))"

subsection \<open>Properties the host reads\<close>

definition device_state_attributes :: "world \<Rightarrow> dict" where
  "device_state_attributes w =
     [(''last_detection'', opt_json (last_detection (self w))),
      (''vehicles'', JList (map (\<lambda>a. JObj (heap w ! a)) (vehicles (self w)))),
      (''statistics'', statistics (self w))] @
     (case save_file_folder (self w) of
        None \<Rightarrow> []
      | Some folder \<Rightarrow>
          [(CONF_SAVE_FILE_FOLDER, JStr folder),
           (CONF_SAVE_TIMESTAMPTED_FILE, JBool (save_timestamped_file (self w))),
           (CONF_ALWAYS_SAVE_LATEST_JPG, JBool (always_save_latest_jpg (self w)))])"

text \<open>The events fired and the files written, read off a trace.\<close>

fun fired :: "effect list \<Rightarrow> dict list" where
  "fired [] = []"
| "fired (BusFire ev d # xs) = d # fired xs"
| "fired (x # xs) = fired xs"

fun written :: "effect list \<Rightarrow> path list" where
  "written [] = []"
| "written (ImgSave p i # xs) = p # written xs"
| "written (x # xs) = written xs"

fun opened :: "effect list \<Rightarrow> bytes list" where
  "opened [] = []"
| "opened (ImageOpen b # xs) = b # opened xs"
| "opened (x # xs) = opened xs"

text \<open>The events fired, each with the name it was fired under.\<close>

fun events :: "effect list \<Rightarrow> (string \<times> dict) list" where
  "events [] = []"
| "events (BusFire ev d # xs) = (ev, d) # events xs"
| "events (x # xs) = events xs"

section \<open>Sample inputs\<close>

definition ex_entity :: entity where
  "ex_entity =
     \<lparr>headers = [(''Authorization'', ''Token abc'')],
      camera = ''camera.drive'',
      name = ''platerecognizer_drive'',
      save_file_folder = Some ''/config/www'',
      save_timestamped_file = True,
      always_save_latest_jpg = True,
      state = Some 0,
      results = JList [],
      vehicles = [],
      statistics = JObj [(''total_calls'', JInt 2500)],
      last_detection = Some ''2021-03-06_18-30-00'',
      entity_id = Some ''image_processing.platerecognizer_drive''\<rparr>"

definition ex_world :: world where
  "ex_world = \<lparr>self = ex_entity, heap = [], trace = []\<rparr>"

definition ex_clock :: datetime where
  "ex_clock = \<lparr>year = 2021, month = 3, day = 7, hour = 9, minute = 5, second = 42\<rparr>"

text \<open>An environment that answers the POST with \<open>p\<close> and the GET with \<open>g\<close>, does not
  identify the empty picture, finds the two-byte picture truncated, decodes every other
  one, and writes every file.\<close>

definition ex_env :: "exn + json \<Rightarrow> exn + json \<Rightarrow> env" where
  "ex_env p g =
     \<lparr>post_json = p,
      get_json = g,
      now = ex_clock,
      image_open = (\<lambda>b. if b = [] then Inl UnidentifiedImageError
                        else if b = [137, 80] then Inl (OSError ''image file is truncated'')
                        else Inr (RGB b)),
      img_save = (\<lambda>p. None),
      float_sub = (\<lambda>a b. Inl TypeError)\<rparr>"

definition ex_stats :: json where
  "ex_stats = JObj [(''total_calls'', JInt 2500), (''usage'', JObj [(''calls'', JInt 17)])]"

definition ex_car :: json where
  "ex_car = JObj [(''plate'', JStr ''abc123''), (''score'', JFloat ''0.904''),
                  (''region'', JObj [(''code'', JStr ''gb'')]),
                  (''vehicle'', JObj [(''type'', JStr ''Sedan'')])]"

definition ex_timeout :: "exn + json" where
  "ex_timeout = Inl (RequestError ''timed out'')"

definition ex_nofolder :: world where
  "ex_nofolder = \<lparr>self = ex_entity\<lparr>save_file_folder := None\<rparr>, heap = [], trace = []\<rparr>"

definition ex_empty :: "exn + json" where
  "ex_empty = Inr (JObj [(''results'', JList [])])"

definition ex_one :: "exn + json" where
  "ex_one = Inr (JObj [(''results'', JList [ex_car])])"

definition ex_van :: json where
  "ex_van = JObj [(''plate'', JStr ''xy99zzz''), (''score'', JFloat ''0.731''),
                  (''region'', JObj [(''code'', JStr ''fr'')]),
                  (''vehicle'', JObj [(''type'', JStr ''Van'')])]"

definition ex_two :: "exn + json" where
  "ex_two = Inr (JObj [(''results'', JList [ex_car, ex_van])])"

text \<open>An entity that holds one vehicle record, at address 0.\<close>

definition ex_seen :: world where
  "ex_seen =
     \<lparr>self = ex_entity\<lparr>state := Some 1, vehicles := [0]\<rparr>,
      heap = [[(''plate'', JStr ''abc123''), (''confidence'', JFloat ''0.904''),
               (''region_code'', JStr ''gb''), (''vehicle_type'', JStr ''Sedan'')]],
      trace = []\<rparr>"

text \<open>The host's \<open>split_entity_id\<close> on well-formed ids: the text before the first dot and
  the text after it.\<close>

definition ex_split :: "string \<Rightarrow> exn + string \<times> string" where
  "ex_split s =
     (let d = takeWhile (\<lambda>c. c \<noteq> CHR ''.'') s;
          r = dropWhile (\<lambda>c. c \<noteq> CHR ''.'') s
      in if d = [] \<or> r = [] \<or> tl r = [] then Inl (ValueError s) else Inr (d, tl r))"

text \<open>The entity built for the camera \<open>camera.drive\<close> without a name, while the statistics
  request times out.\<close>

definition ex_new :: world where
  "ex_new =
     \<lparr>self =
        \<lparr>headers = [(''Authorization'', ''Token abc'')],
         camera = ''camera.drive'',
         name = ''platerecognizer_drive'',
         save_file_folder = Some ''/config/www'',
         save_timestamped_file = True,
         always_save_latest_jpg = True,
         state = None,
         results = JObj [],
         vehicles = [0],
         statistics = JObj [],
         last_detection = None,
         entity_id = None\<rparr>,
      heap = [[]],
      trace = [HttpGet ''https://api.platerecognizer.com/v1/statistics/''
                 [(''Authorization'', ''Token abc'')],
               LogError ''platerecognizer error getting statistics: %s''
                 (RequestError ''timed out'')]\<rparr>"

section \<open>Basic facts\<close>

lemma bind_Inl [simp]: "bind (Inl e) f = Inl e"
  by (simp add: bind_def)

lemma bind_Inr [simp]: "bind (Inr v) f = f v"
  by (simp add: bind_def)

lemma self_emit [simp]: "self (emit x w) = self w"
  by (simp add: emit_def)

lemma heap_emit [simp]: "heap (emit x w) = heap w"
  by (simp add: emit_def)

lemma trace_emit [simp]: "trace (emit x w) = trace w @ [x]"
  by (simp add: emit_def)

lemma getitem_Inr_obj: "getitem r k = Inr v \<Longrightarrow> \<exists>kv. r = JObj kv \<and> map_of kv k = Some v"
  by (cases r) (auto split: option.splits)

lemma getitem_dict_update:
  "getitem (JObj (dict_update k v kv)) k' = (if k' = k then Inr v else getitem (JObj kv) k')"
  by (simp add: dict_update_def update_conv')

section \<open>Statistics\<close>

lemma get_statistics_failure:
  "fetch_statistics ev = Inl e \<Longrightarrow> self (get_statistics ev w) = self w"
  by (simp add: get_statistics_def Let_def)

lemma get_statistics_success:
  "fetch_statistics ev = Inr r \<Longrightarrow>
   self (get_statistics ev w) = (self w)\<lparr>statistics := r\<rparr>"
  by (simp add: get_statistics_def Let_def)

lemma heap_get_statistics [simp]: "heap (get_statistics ev w) = heap w"
  by (simp add: get_statistics_def Let_def split: sum.splits)

text \<open>
  C3. \<open>get_statistics\<close>: when the GET or the JSON decoding raises, when
  \<open>total_calls\<close>, \<open>usage\<close> or \<open>usage.calls\<close> cannot be looked up, or when the
  subtraction raises, the entity (and with it the stored statistics) is what it was. When
  all of them succeed, the stored statistics are the response with the key
  \<open>calls_remaining\<close> set to \<open>total_calls - usage.calls\<close>: nothing of the earlier
  snapshot is kept, every other key reads as in the response, and for integers the
  difference is the integer difference.
\<close>

theorem get_statistics_keeps_or_replaces:
  "(get_json ev = Inl e \<longrightarrow> self (get_statistics ev w) = self w) \<and>
   (get_json ev = Inr r \<and> getitem r ''total_calls'' = Inl e \<longrightarrow>
      self (get_statistics ev w) = self w) \<and>
   (get_json ev = Inr r \<and> getitem r ''total_calls'' = Inr t \<and> getitem r ''usage'' = Inl e \<longrightarrow>
      self (get_statistics ev w) = self w) \<and>
   (get_json ev = Inr r \<and> getitem r ''total_calls'' = Inr t \<and> getitem r ''usage'' = Inr u \<and>
    getitem u ''calls'' = Inl e \<longrightarrow>
      self (get_statistics ev w) = self w) \<and>
   (get_json ev = Inr r \<and> getitem r ''total_calls'' = Inr t \<and> getitem r ''usage'' = Inr u \<and>
    getitem u ''calls'' = Inr c \<and> py_sub ev t c = Inl e \<longrightarrow>
      self (get_statistics ev w) = self w) \<and>
   (get_json ev = Inr r \<and> getitem r ''total_calls'' = Inr t \<and> getitem r ''usage'' = Inr u \<and>
    getitem u ''calls'' = Inr c \<and> py_sub ev t c = Inr d \<longrightarrow>
      (\<exists>kv. r = JObj kv \<and>
         self (get_statistics ev w) =
           (self w)\<lparr>statistics := JObj (dict_update ''calls_remaining'' d kv)\<rparr>) \<and>
      getitem (statistics (self (get_statistics ev w))) ''calls_remaining'' = Inr d \<and>
      (\<forall>k. k \<noteq> ''calls_remaining'' \<longrightarrow>
         getitem (statistics (self (get_statistics ev w))) k = getitem r k)) \<and>
   (as_int t = Some a \<and> as_int c = Some b \<longrightarrow> py_sub ev t c = Inr (JInt (a - b)))"
proof (intro conjI impI)
  assume "get_json ev = Inl e"
  then have "fetch_statistics ev = Inl e" by (simp add: fetch_statistics_def)
  then show "self (get_statistics ev w) = self w" by (rule get_statistics_failure)
next
  assume "get_json ev = Inr r \<and> getitem r ''total_calls'' = Inl e"
  then have "fetch_statistics ev = Inl e" by (simp add: fetch_statistics_def)
  then show "self (get_statistics ev w) = self w" by (rule get_statistics_failure)
next
  assume "get_json ev = Inr r \<and> getitem r ''total_calls'' = Inr t \<and> getitem r ''usage'' = Inl e"
  then have "fetch_statistics ev = Inl e" by (simp add: fetch_statistics_def)
  then show "self (get_statistics ev w) = self w" by (rule get_statistics_failure)
next
  assume "get_json ev = Inr r \<and> getitem r ''total_calls'' = Inr t \<and> getitem r ''usage'' = Inr u \<and>
    getitem u ''calls'' = Inl e"
  then have "fetch_statistics ev = Inl e" by (simp add: fetch_statistics_def)
  then show "self (get_statistics ev w) = self w" by (rule get_statistics_failure)
next
  assume "get_json ev = Inr r \<and> getitem r ''total_calls'' = Inr t \<and> getitem r ''usage'' = Inr u \<and>
    getitem u ''calls'' = Inr c \<and> py_sub ev t c = Inl e"
  then have "fetch_statistics ev = Inl e" by (simp add: fetch_statistics_def)
  then show "self (get_statistics ev w) = self w" by (rule get_statistics_failure)
next
  assume h: "get_json ev = Inr r \<and> getitem r ''total_calls'' = Inr t \<and> getitem r ''usage'' = Inr u \<and>
    getitem u ''calls'' = Inr c \<and> py_sub ev t c = Inr d"
  then obtain kv where r: "r = JObj kv" using getitem_Inr_obj by blast
  from h r have f: "fetch_statistics ev = Inr (JObj (dict_update ''calls_remaining'' d kv))"
    by (simp add: fetch_statistics_def)
  have s: "self (get_statistics ev w) =
      (self w)\<lparr>statistics := JObj (dict_update ''calls_remaining'' d kv)\<rparr>"
    using f by (rule get_statistics_success)
  show "\<exists>kv. r = JObj kv \<and>
         self (get_statistics ev w) =
           (self w)\<lparr>statistics := JObj (dict_update ''calls_remaining'' d kv)\<rparr>"
    using r s by blast
  show "getitem (statistics (self (get_statistics ev w))) ''calls_remaining'' = Inr d"
    by (simp add: s getitem_dict_update del: getitem.simps)
  show "\<forall>k. k \<noteq> ''calls_remaining'' \<longrightarrow>
         getitem (statistics (self (get_statistics ev w))) k = getitem r k"
    by (simp add: s r getitem_dict_update del: getitem.simps)
next
  assume "as_int t = Some a \<and> as_int c = Some b"
  then show "py_sub ev t c = Inr (JInt (a - b))" by (simp add: py_sub_def)
qed

text \<open>A timed-out GET keeps the snapshot; a well-formed answer with 2500 calls, 17 of them
  used, replaces it and leaves 2483.\<close>

theorem get_statistics_keeps_or_replaces_witness:
  "self (get_statistics (ex_env ex_timeout ex_timeout) ex_world) = self ex_world \<and>
   statistics (self (get_statistics (ex_env ex_timeout (Inr ex_stats)) ex_world)) =
     JObj [(''total_calls'', JInt 2500), (''usage'', JObj [(''calls'', JInt 17)]),
           (''calls_remaining'', JInt 2483)]"
proof -
  have g1: "get_json (ex_env ex_timeout ex_timeout) = Inl (RequestError ''timed out'')"
    by (simp add: ex_env_def ex_timeout_def)
  have a: "self (get_statistics (ex_env ex_timeout ex_timeout) ex_world) = self ex_world"
    using get_statistics_keeps_or_replaces
            [of "ex_env ex_timeout ex_timeout" "RequestError ''timed out'' " ex_world] g1
    by blast
  let ?ev = "ex_env ex_timeout (Inr ex_stats)"
  have g2: "get_json ?ev = Inr ex_stats \<and> getitem ex_stats ''total_calls'' = Inr (JInt 2500) \<and>
            getitem ex_stats ''usage'' = Inr (JObj [(''calls'', JInt 17)]) \<and>
            getitem (JObj [(''calls'', JInt 17)]) ''calls'' = Inr (JInt 17) \<and>
            py_sub ?ev (JInt 2500) (JInt 17) = Inr (JInt 2483)"
    by (simp add: ex_env_def ex_stats_def py_sub_def)
  have "\<exists>kv. ex_stats = JObj kv \<and>
          self (get_statistics ?ev ex_world) =
            (self ex_world)\<lparr>statistics := JObj (dict_update ''calls_remaining'' (JInt 2483) kv)\<rparr>"
    using get_statistics_keeps_or_replaces
            [of ?ev _ ex_world ex_stats "JInt 2500" "JObj [(''calls'', JInt 17)]" "JInt 17"
                "JInt 2483"] g2
    by blast
  then have b: "statistics (self (get_statistics ?ev ex_world)) =
     JObj [(''total_calls'', JInt 2500), (''usage'', JObj [(''calls'', JInt 17)]),
           (''calls_remaining'', JInt 2483)]"
    by (auto simp add: ex_stats_def dict_update_def)
  show ?thesis using a b by simp
qed

section \<open>Events, the heap and the detection step\<close>

lemma fired_append [simp]: "fired (xs @ ys) = fired xs @ fired ys"
  by (induction xs rule: fired.induct) simp_all

lemma written_append [simp]: "written (xs @ ys) = written xs @ written ys"
  by (induction xs rule: written.induct) simp_all

lemma opened_append [simp]: "opened (xs @ ys) = opened xs @ opened ys"
  by (induction xs rule: opened.induct) simp_all

lemma fire_vehicle_detected_event_eq:
  "fire_vehicle_detected_event a w =
     emit (BusFire EVENT_VEHICLE_DETECTED
             (dict_update ATTR_ENTITY_ID (opt_json (entity_id (self w))) (heap w ! a)))
       (w\<lparr>heap := heap w @
            [dict_update ATTR_ENTITY_ID (opt_json (entity_id (self w))) (heap w ! a)]\<rparr>)"
  by (simp add: fire_vehicle_detected_event_def Let_def)

lemma fire_all_eq:
  "\<forall>a \<in> set as. a < length (heap w) \<Longrightarrow>
   fire_all as w =
     w\<lparr>heap := heap w @ map (\<lambda>a. payload w (heap w ! a)) as,
       trace := trace w @ map (\<lambda>a. BusFire EVENT_VEHICLE_DETECTED (payload w (heap w ! a))) as\<rparr>"
proof (induction as arbitrary: w)
  case Nil
  show ?case by simp
next
  case (Cons a as)
  let ?w = "fire_vehicle_detected_event a w"
  have len: "\<forall>b \<in> set as. b < length (heap ?w)"
    using Cons.prems by (auto simp add: fire_vehicle_detected_event_eq)
  have same: "\<forall>b \<in> set as. heap ?w ! b = heap w ! b"
    using Cons.prems by (simp add: fire_vehicle_detected_event_eq nth_append)
  have p: "payload ?w = payload w"
    by (simp add: payload_def fire_vehicle_detected_event_eq fun_eq_iff)
  have "fire_all as ?w =
     ?w\<lparr>heap := heap ?w @ map (\<lambda>a. payload ?w (heap ?w ! a)) as,
       trace := trace ?w @ map (\<lambda>a. BusFire EVENT_VEHICLE_DETECTED (payload ?w (heap ?w ! a))) as\<rparr>"
    using len by (rule Cons.IH)
  then show ?case using same
    by (simp add: p) (simp add: fire_vehicle_detected_event_eq payload_def emit_def)
qed

lemma fire_all_fresh:
  assumes "map ((!) (heap w)) as = ds" and "\<forall>a \<in> set as. a < length (heap w)"
  shows "fire_all as w =
     w\<lparr>heap := heap w @ map (payload w) ds,
       trace := trace w @ map (\<lambda>d. BusFire EVENT_VEHICLE_DETECTED (payload w d)) ds\<rparr>"
proof -
  have "map (\<lambda>a. payload w (heap w ! a)) as = map (payload w) ds"
    using assms(1) by (auto simp add: comp_def)
  moreover have "map (\<lambda>a. BusFire EVENT_VEHICLE_DETECTED (payload w (heap w ! a))) as =
                 map (\<lambda>d. BusFire EVENT_VEHICLE_DETECTED (payload w d)) ds"
    using assms(1) by (auto simp add: comp_def)
  ultimately show ?thesis using fire_all_eq [OF assms(2)] by simp
qed

lemma nth_fresh: "map ((!) (h @ ds)) [length h ..< length h + length ds] = ds"
proof -
  have "[length h ..< length h + length ds] = map (\<lambda>i. i + length h) [0 ..< length ds]"
    by (simp add: map_add_upt add.commute)
  then have "map ((!) (h @ ds)) [length h ..< length h + length ds] =
             map ((!) ds) [0 ..< length ds]"
    by (simp add: nth_append)
  then show ?thesis by (simp add: map_nth)
qed

lemma recognise_raises_post:
  "bind (post_json ev) (\<lambda>body. getitem body ''results'') = Inl e \<Longrightarrow>
   recognise ev w = (w, Some e)"
  by (simp add: recognise_def)

lemma recognise_raises_parse:
  "bind (post_json ev) (\<lambda>body. getitem body ''results'') = Inr res \<Longrightarrow>
   bind (py_iter res) vehicles_of = Inl e \<Longrightarrow>
   recognise ev w = (w\<lparr>self := (self w)\<lparr>results := res\<rparr>\<rparr>, Some e)"
  by (simp add: recognise_def Let_def)

lemma recognise_ok:
  "bind (post_json ev) (\<lambda>body. getitem body ''results'') = Inr res \<Longrightarrow>
   bind (py_iter res) vehicles_of = Inr ds \<Longrightarrow>
   recognise ev w =
     (w\<lparr>heap := heap w @ ds,
        self := (self w)\<lparr>results := res,
                   vehicles := [length (heap w) ..< length (heap w) + length ds]\<rparr>\<rparr>, None)"
  by (simp add: recognise_def Let_def alloc_all_def)


lemma detect_raises_post:
  assumes "bind (post_json ev) (\<lambda>body. getitem body ''results'') = Inl e"
  shows "detect ev pic w =
     w\<lparr>self := (self w)\<lparr>results := JObj [], vehicles := [length (heap w)], state := Some 1,
                  last_detection := Some (strftime (now ev))\<rparr>,
       heap := heap w @ [[], payload w []],
       trace := trace w @
         [HttpPost PLATE_READER_URL pic (headers (self w)),
          LogError ''platerecognizer error processing image: %s'' e,
          BusFire EVENT_VEHICLE_DETECTED (payload w [])]\<rparr>"
  by (simp add: detect_def alloc_all_def Let_def recognise_raises_post [OF assms]
        fire_vehicle_detected_event_eq payload_def emit_def nth_append)

lemma detect_raises_parse:
  assumes "bind (post_json ev) (\<lambda>body. getitem body ''results'') = Inr res"
    and "bind (py_iter res) vehicles_of = Inl e"
  shows "detect ev pic w =
     w\<lparr>self := (self w)\<lparr>results := res, vehicles := [length (heap w)], state := Some 1,
                  last_detection := Some (strftime (now ev))\<rparr>,
       heap := heap w @ [[], payload w []],
       trace := trace w @
         [HttpPost PLATE_READER_URL pic (headers (self w)),
          LogError ''platerecognizer error processing image: %s'' e,
          BusFire EVENT_VEHICLE_DETECTED (payload w [])]\<rparr>"
  by (simp add: detect_def alloc_all_def Let_def recognise_raises_parse [OF assms]
        fire_vehicle_detected_event_eq payload_def emit_def nth_append)

lemma detect_ok:
  assumes "bind (post_json ev) (\<lambda>body. getitem body ''results'') = Inr res"
    and "bind (py_iter res) vehicles_of = Inr ds"
  shows "detect ev pic w =
     w\<lparr>self := (self w)\<lparr>results := res,
                  vehicles := [Suc (length (heap w)) ..< Suc (length (heap w)) + length ds],
                  state := Some (length ds),
                  last_detection := (if ds = [] then last_detection (self w)
                                     else Some (strftime (now ev)))\<rparr>,
       heap := heap w @ [] # ds @ map (payload w) ds,
       trace := trace w @
         HttpPost PLATE_READER_URL pic (headers (self w)) #
         map (\<lambda>d. BusFire EVENT_VEHICLE_DETECTED (payload w d)) ds\<rparr>"
proof (cases "ds = []")
  case True
  then show ?thesis
    by (simp add: detect_def alloc_all_def Let_def recognise_ok [OF assms] emit_def)
next
  case False
  let ?h = "heap w @ [[]]"
  let ?as = "[length ?h ..< length ?h + length ds]"
  let ?w5 = "w\<lparr>self := (self w)\<lparr>results := res, vehicles := ?as, state := Some (length ds),
                  last_detection := Some (strftime (now ev))\<rparr>,
       heap := ?h @ ds,
       trace := trace w @ [HttpPost PLATE_READER_URL pic (headers (self w))]\<rparr>"
  have d: "detect ev pic w = fire_all ?as ?w5"
    using False
    by (cases w) (simp add: detect_def alloc_all_def Let_def recognise_ok [OF assms] emit_def)
  have valid: "\<forall>a \<in> set ?as. a < length (heap ?w5)" by auto
  have fresh: "map ((!) (heap ?w5)) ?as = ds"
    using nth_fresh [of ?h ds] by simp
  have p: "payload ?w5 = payload w" by (simp add: payload_def fun_eq_iff)
  have eq: "fire_all ?as ?w5 =
     ?w5\<lparr>heap := heap ?w5 @ map (payload ?w5) ds,
         trace := trace ?w5 @ map (\<lambda>d. BusFire EVENT_VEHICLE_DETECTED (payload ?w5 d)) ds\<rparr>"
    by (rule fire_all_fresh [OF fresh valid])
  show ?thesis unfolding d eq p using False by (cases w) simp
qed

section \<open>Saving and the whole of process_image\<close>

lemma save_image_unidentified:
  "image_open ev pic = Inl UnidentifiedImageError \<Longrightarrow>
   save_image ev pic w =
     (w\<lparr>trace := trace w @
          [ImageOpen pic, LogWarning ''platerecognizer unable to save image, bad data'']\<rparr>, None)"
  by (simp add: save_image_def Let_def emit_def)

lemma save_image_ok:
  assumes "image_open ev pic = Inr img" and "save_file_folder (self w) = Some folder"
    and "\<forall>p. img_save ev p = None"
  shows "save_image ev pic w =
     (w\<lparr>trace := trace w @
          ImageOpen pic # ImgSave (Div folder (name (self w) @ ''_latest.png'')) img #
          (if save_timestamped_file (self w)
           then [ImgSave (Div folder (name (self w) @ ''_'' @
                            py_str (last_detection (self w)) @ ''.png'')) img,
                 LogInfo ''platerecognizer saved file %s''
                   (Div folder (name (self w) @ ''_'' @
                            py_str (last_detection (self w)) @ ''.png''))]
           else [])\<rparr>, None)"
  using assms by (simp add: save_image_def Let_def emit_def)

lemma self_save_image [simp]: "self (fst (save_image ev pic w)) = self w"
  by (simp add: save_image_def Let_def split: sum.splits option.splits)

lemma heap_save_image [simp]: "heap (fst (save_image ev pic w)) = heap w"
  by (simp add: save_image_def Let_def split: sum.splits option.splits)

lemma fired_save_image [simp]: "fired (trace (fst (save_image ev pic w))) = fired (trace w)"
  by (simp add: save_image_def Let_def split: sum.splits option.splits)

lemma opened_save_image [simp]:
  "opened (trace (fst (save_image ev pic w))) = opened (trace w) @ [pic]"
  by (simp add: save_image_def Let_def split: sum.splits option.splits)

lemma self_get_statistics: "\<exists>s. self (get_statistics ev w) = (self w)\<lparr>statistics := s\<rparr>"
  by (cases "fetch_statistics ev")
     (auto simp add: get_statistics_def Let_def intro: exI [of _ "statistics (self w)"])

lemma fired_get_statistics [simp]: "fired (trace (get_statistics ev w)) = fired (trace w)"
  by (simp add: get_statistics_def Let_def split: sum.splits)

lemma opened_get_statistics [simp]: "opened (trace (get_statistics ev w)) = opened (trace w)"
  by (simp add: get_statistics_def Let_def split: sum.splits)

lemma written_get_statistics [simp]: "written (trace (get_statistics ev w)) = written (trace w)"
  by (simp add: get_statistics_def Let_def split: sum.splits)

text \<open>What \<open>process_image\<close> adds to the world that \<open>detect\<close> leaves.\<close>

lemma process_image_self:
  "\<exists>s. self (fst (process_image ev pic w)) = (self (detect ev pic w))\<lparr>statistics := s\<rparr>"
proof -
  obtain w7 r where sv: "save_image ev pic (detect ev pic w) = (w7, r)" by fastforce
  then have s7: "self w7 = self (detect ev pic w)"
    using self_save_image [of ev pic "detect ev pic w"] by simp
  have triv: "\<exists>s. self (detect ev pic w) = (self (detect ev pic w))\<lparr>statistics := s\<rparr>"
    by (rule exI [of _ "statistics (self (detect ev pic w))"]) simp
  show ?thesis
    using self_get_statistics [of ev "detect ev pic w"] self_get_statistics [of ev w7] triv
    by (auto simp add: process_image_def Let_def sv s7 split: option.splits prod.splits)
qed

lemma process_image_heap [simp]:
  "heap (fst (process_image ev pic w)) = heap (detect ev pic w)"
proof -
  obtain w7 r where sv: "save_image ev pic (detect ev pic w) = (w7, r)" by fastforce
  then have "heap w7 = heap (detect ev pic w)"
    using heap_save_image [of ev pic "detect ev pic w"] by simp
  then show ?thesis
    by (auto simp add: process_image_def Let_def sv split: option.splits prod.splits)
qed

lemma process_image_fired [simp]:
  "fired (trace (fst (process_image ev pic w))) = fired (trace (detect ev pic w))"
proof -
  obtain w7 r where sv: "save_image ev pic (detect ev pic w) = (w7, r)" by fastforce
  then have "fired (trace w7) = fired (trace (detect ev pic w))"
    using fired_save_image [of ev pic "detect ev pic w"] by simp
  then show ?thesis
    by (auto simp add: process_image_def Let_def sv split: option.splits prod.splits)
qed

lemma process_image_opened:
  "state (self (detect ev pic w)) = Some n \<Longrightarrow>
   opened (trace (fst (process_image ev pic w))) =
     opened (trace (detect ev pic w)) @
     (if save_file_folder (self (detect ev pic w)) \<noteq> None \<and>
         (0 < n \<or> always_save_latest_jpg (self (detect ev pic w)))
      then [pic] else [])"
proof -
  assume st: "state (self (detect ev pic w)) = Some n"
  obtain w7 r where sv: "save_image ev pic (detect ev pic w) = (w7, r)" by fastforce
  then have "opened (trace w7) = opened (trace (detect ev pic w)) @ [pic]"
    using opened_save_image [of ev pic "detect ev pic w"] by simp
  then show ?thesis
    by (auto simp add: process_image_def Let_def sv st split: option.splits prod.splits)
qed

lemma detect_frame:
  "headers (self (detect ev pic w)) = headers (self w) \<and>
   camera (self (detect ev pic w)) = camera (self w) \<and>
   name (self (detect ev pic w)) = name (self w) \<and>
   save_file_folder (self (detect ev pic w)) = save_file_folder (self w) \<and>
   save_timestamped_file (self (detect ev pic w)) = save_timestamped_file (self w) \<and>
   always_save_latest_jpg (self (detect ev pic w)) = always_save_latest_jpg (self w) \<and>
   statistics (self (detect ev pic w)) = statistics (self w) \<and>
   entity_id (self (detect ev pic w)) = entity_id (self w) \<and>
   opened (trace (detect ev pic w)) = opened (trace w) \<and>
   written (trace (detect ev pic w)) = written (trace w) \<and>
   state (self (detect ev pic w)) = Some (length (vehicles (self (detect ev pic w))))"
proof (cases "bind (post_json ev) (\<lambda>body. getitem body ''results'')")
  case (Inl e)
  show ?thesis unfolding detect_raises_post [OF Inl] by simp
next
  case (Inr res)
  show ?thesis
  proof (cases "bind (py_iter res) vehicles_of")
    case (Inl e)
    show ?thesis unfolding detect_raises_parse [OF Inr Inl] by simp
  next
    case ok: (Inr ds)
    have w: "written (map (\<lambda>d. BusFire EVENT_VEHICLE_DETECTED (payload w d)) ds) = []"
      by (induction ds) simp_all
    have o: "opened (map (\<lambda>d. BusFire EVENT_VEHICLE_DETECTED (payload w d)) ds) = []"
      by (induction ds) simp_all
    show ?thesis unfolding detect_ok [OF Inr ok] using w o by (simp del: upt_Suc)
  qed
qed

text \<open>
  C4. After \<open>process_image\<close> the state is a number \<open>n\<close>, and the picture is handed to
  the save step (whose first act is to open it) exactly when a save directory is set and
  \<open>n > 0\<close> or the always-save flag is set. Without a save directory nothing is opened,
  whatever the flag.
\<close>

theorem save_step_iff_folder_and_detection_or_always:
  "\<exists>n. state (self (fst (process_image ev pic w))) = Some n \<and>
       opened (trace (fst (process_image ev pic w))) =
         opened (trace w) @
         (if save_file_folder (self w) \<noteq> None \<and> (0 < n \<or> always_save_latest_jpg (self w))
          then [pic] else []) \<and>
       (save_file_folder (self w) = None \<longrightarrow>
          opened (trace (fst (process_image ev pic w))) = opened (trace w) \<and>
          written (trace (fst (process_image ev pic w))) = written (trace w))"
proof -
  let ?d = "detect ev pic w"
  let ?n = "length (vehicles (self ?d))"
  note f = detect_frame [of ev pic w]
  from f have st: "state (self ?d) = Some ?n" by simp
  obtain s where s: "self (fst (process_image ev pic w)) = (self ?d)\<lparr>statistics := s\<rparr>"
    using process_image_self by blast
  have a: "state (self (fst (process_image ev pic w))) = Some ?n"
    by (simp add: s st)
  have b: "opened (trace (fst (process_image ev pic w))) =
         opened (trace w) @
         (if save_file_folder (self w) \<noteq> None \<and> (0 < ?n \<or> always_save_latest_jpg (self w))
          then [pic] else [])"
    using process_image_opened [OF st] f by simp
  have c: "save_file_folder (self w) = None \<longrightarrow>
          written (trace (fst (process_image ev pic w))) = written (trace w)"
    using f by (auto simp add: process_image_def Let_def)
  show ?thesis using a b c by auto
qed

theorem save_step_iff_folder_and_detection_or_always_witness:
  "opened (trace (fst (process_image (ex_env ex_empty ex_timeout) [1, 2, 3] ex_world))) =
     [[1, 2, 3]] \<and>
   opened (trace (fst (process_image (ex_env ex_empty ex_timeout) [1, 2, 3] ex_nofolder))) = []"
proof -
  have a: "save_file_folder (self ex_world) \<noteq> None \<and> always_save_latest_jpg (self ex_world) \<and>
           opened (trace ex_world) = []"
    by (simp add: ex_world_def ex_entity_def)
  have b: "save_file_folder (self ex_nofolder) = None \<and> opened (trace ex_nofolder) = []"
    by (simp add: ex_nofolder_def)
  show ?thesis
    using save_step_iff_folder_and_detection_or_always
            [of "ex_env ex_empty ex_timeout" "[1, 2, 3]" ex_world]
          save_step_iff_folder_and_detection_or_always
            [of "ex_env ex_empty ex_timeout" "[1, 2, 3]" ex_nofolder] a b
    by auto
qed

lemma vehicles_of_entries:
  "list_all2 (\<lambda>r (p, s, c, t).
      getitem r ''plate'' = Inr p \<and> getitem r ''score'' = Inr s \<and>
      bind (getitem r ''region'') (\<lambda>x. getitem x ''code'') = Inr c \<and>
      bind (getitem r ''vehicle'') (\<lambda>x. getitem x ''type'') = Inr t) rs fs \<Longrightarrow>
   vehicles_of rs =
     Inr (map (\<lambda>(p, s, c, t). [(''plate'', p), (''confidence'', s),
                                 (''region_code'', c), (''vehicle_type'', t)]) fs)"
proof (induction rs fs rule: list_all2_induct)
  case Nil
  show ?case by simp
next
  case (Cons r rs f fs)
  obtain p s c t where f: "f = (p, s, c, t)" by (cases f) auto
  from Cons.hyps(1) f have v: "vehicle_of r =
      Inr [(''plate'', p), (''confidence'', s), (''region_code'', c), (''vehicle_type'', t)]"
    by (auto simp add: vehicle_of_def bind_def ATTR_PLATE_def ATTR_CONFIDENCE_def
          ATTR_REGION_CODE_def ATTR_VEHICLE_TYPE_def split: sum.splits)
  show ?case by (simp add: v Cons.IH f)
qed

lemma payload_vehicle:
  "payload w [(''plate'', p), (''confidence'', s), (''region_code'', c), (''vehicle_type'', t)] =
     [(''plate'', p), (''confidence'', s), (''region_code'', c), (''vehicle_type'', t),
      (''entity_id'', opt_json (entity_id (self w)))]"
  by (simp add: payload_def dict_update_def ATTR_ENTITY_ID_def)

lemma fired_bus:
  "fired (map (\<lambda>d. BusFire EVENT_VEHICLE_DETECTED (payload w d)) ds) = map (payload w) ds"
  by (induction ds) simp_all

lemma events_append [simp]: "events (xs @ ys) = events xs @ events ys"
  by (induction xs rule: events.induct) simp_all

lemma events_save_image [simp]: "events (trace (fst (save_image ev pic w))) = events (trace w)"
  by (simp add: save_image_def Let_def split: sum.splits option.splits)

lemma events_get_statistics [simp]: "events (trace (get_statistics ev w)) = events (trace w)"
  by (simp add: get_statistics_def Let_def split: sum.splits)

lemma process_image_events [simp]:
  "events (trace (fst (process_image ev pic w))) = events (trace (detect ev pic w))"
proof -
  obtain w7 r where sv: "save_image ev pic (detect ev pic w) = (w7, r)" by fastforce
  then have "events (trace w7) = events (trace (detect ev pic w))"
    using events_save_image [of ev pic "detect ev pic w"] by simp
  then show ?thesis
    by (auto simp add: process_image_def Let_def sv split: option.splits prod.splits)
qed

lemma events_bus:
  "events (map (\<lambda>d. BusFire EVENT_VEHICLE_DETECTED (payload w d)) ds) =
     map (\<lambda>d. (''platerecognizer.vehicle_detected'', payload w d)) ds"
  by (induction ds) (simp_all add: EVENT_VEHICLE_DETECTED_def)

section \<open>Recognition results\<close>

text \<open>
  C2. When the POST answers a body whose \<open>results\<close> is a list of \<open>N\<close> entries, each
  with a \<open>plate\<close>, a \<open>score\<close>, a \<open>region.code\<close> and a \<open>vehicle.type\<close>, then
  after \<open>process_image\<close> the state is \<open>N\<close> and exactly \<open>N\<close> events have been fired on
  top of the earlier ones, in the order of the entries, each under the name
  \<open>platerecognizer.vehicle_detected\<close>, the payload of each holding the entry's plate, its
  score as \<open>confidence\<close>, its region code, its vehicle type and the entity's identifier.
\<close>

theorem one_event_per_result:
  assumes "post_json ev = Inr body"
    and "getitem body ''results'' = Inr (JList rs)"
    and "list_all2 (\<lambda>r (p, s, c, t).
           getitem r ''plate'' = Inr p \<and> getitem r ''score'' = Inr s \<and>
           bind (getitem r ''region'') (\<lambda>x. getitem x ''code'') = Inr c \<and>
           bind (getitem r ''vehicle'') (\<lambda>x. getitem x ''type'') = Inr t) rs fs"
  shows "state (self (fst (process_image ev pic w))) = Some (length rs) \<and>
         events (trace (fst (process_image ev pic w))) =
           events (trace w) @
           map (\<lambda>(p, s, c, t).
                  (''platerecognizer.vehicle_detected'',
                   [(''plate'', p), (''confidence'', s), (''region_code'', c),
                    (''vehicle_type'', t), (''entity_id'', opt_json (entity_id (self w)))])) fs \<and>
         fired (trace (fst (process_image ev pic w))) =
           fired (trace w) @
           map (\<lambda>(p, s, c, t).
                  [(''plate'', p), (''confidence'', s), (''region_code'', c),
                   (''vehicle_type'', t), (''entity_id'', opt_json (entity_id (self w)))]) fs \<and>
         length (events (trace (fst (process_image ev pic w)))) =
           length (events (trace w)) + length rs \<and>
         length (fired (trace (fst (process_image ev pic w)))) =
           length (fired (trace w)) + length rs"
proof -
  let ?ds = "map (\<lambda>(p, s, c, t). [(''plate'', p), (''confidence'', s),
                                 (''region_code'', c), (''vehicle_type'', t)]) fs"
  have len: "length fs = length rs"
    using assms(3) by (simp add: list_all2_lengthD)
  have r: "bind (post_json ev) (\<lambda>body. getitem body ''results'') = Inr (JList rs)"
    using assms(1,2) by simp
  have v: "bind (py_iter (JList rs)) vehicles_of = Inr ?ds"
    using vehicles_of_entries [OF assms(3)] by simp
  note d = detect_ok [OF r v, of pic w]
  obtain s where s: "self (fst (process_image ev pic w)) = (self (detect ev pic w))\<lparr>statistics := s\<rparr>"
    using process_image_self by blast
  have a: "state (self (fst (process_image ev pic w))) = Some (length rs)"
    by (simp add: s d len)
  have m: "map (payload w) ?ds =
        map (\<lambda>(p, s, c, t).
                  [(''plate'', p), (''confidence'', s), (''region_code'', c),
                   (''vehicle_type'', t), (''entity_id'', opt_json (entity_id (self w)))]) fs"
    by (simp add: payload_vehicle split_def)
  have m2: "map (\<lambda>d. (''platerecognizer.vehicle_detected'', payload w d)) ?ds =
        map (\<lambda>(p, s, c, t).
                  (''platerecognizer.vehicle_detected'',
                   [(''plate'', p), (''confidence'', s), (''region_code'', c),
                    (''vehicle_type'', t), (''entity_id'', opt_json (entity_id (self w)))])) fs"
    by (simp add: payload_vehicle split_def)
  have fb: "fired (map (\<lambda>d. BusFire EVENT_VEHICLE_DETECTED (payload w d)) ?ds) =
            map (payload w) ?ds"
    by (rule fired_bus)
  have eb: "events (map (\<lambda>d. BusFire EVENT_VEHICLE_DETECTED (payload w d)) ?ds) =
            map (\<lambda>d. (''platerecognizer.vehicle_detected'', payload w d)) ?ds"
    by (rule events_bus)
  have b: "fired (trace (fst (process_image ev pic w))) =
           fired (trace w) @
           map (\<lambda>(p, s, c, t).
                  [(''plate'', p), (''confidence'', s), (''region_code'', c),
                   (''vehicle_type'', t), (''entity_id'', opt_json (entity_id (self w)))]) fs"
    by (simp add: d fb m del: map_map)
  have c: "events (trace (fst (process_image ev pic w))) =
           events (trace w) @
           map (\<lambda>(p, s, c, t).
                  (''platerecognizer.vehicle_detected'',
                   [(''plate'', p), (''confidence'', s), (''region_code'', c),
                    (''vehicle_type'', t), (''entity_id'', opt_json (entity_id (self w)))])) fs"
    by (simp add: d eb m2 del: map_map)
  show ?thesis using a b c len by simp
qed

theorem one_event_per_result_witness:
  "state (self (fst (process_image (ex_env ex_two ex_timeout) [1, 2, 3] ex_world))) = Some 2 \<and>
   events (trace (fst (process_image (ex_env ex_two ex_timeout) [1, 2, 3] ex_world))) =
     [(''platerecognizer.vehicle_detected'',
       [(''plate'', JStr ''abc123''), (''confidence'', JFloat ''0.904''),
        (''region_code'', JStr ''gb''), (''vehicle_type'', JStr ''Sedan''),
        (''entity_id'', JStr ''image_processing.platerecognizer_drive'')]),
      (''platerecognizer.vehicle_detected'',
       [(''plate'', JStr ''xy99zzz''), (''confidence'', JFloat ''0.731''),
        (''region_code'', JStr ''fr''), (''vehicle_type'', JStr ''Van''),
        (''entity_id'', JStr ''image_processing.platerecognizer_drive'')])] \<and>
   state (self (fst (process_image (ex_env ex_one ex_timeout) [1, 2, 3] ex_world))) = Some 1 \<and>
   events (trace (fst (process_image (ex_env ex_one ex_timeout) [1, 2, 3] ex_world))) =
     [(''platerecognizer.vehicle_detected'',
       [(''plate'', JStr ''abc123''), (''confidence'', JFloat ''0.904''),
        (''region_code'', JStr ''gb''), (''vehicle_type'', JStr ''Sedan''),
        (''entity_id'', JStr ''image_processing.platerecognizer_drive'')])]"
proof -
  let ?ev = "ex_env ex_two ex_timeout"
  have p: "post_json ?ev = Inr (JObj [(''results'', JList [ex_car, ex_van])])"
    by (simp add: ex_env_def ex_two_def)
  have g: "getitem (JObj [(''results'', JList [ex_car, ex_van])]) ''results'' =
           Inr (JList [ex_car, ex_van])"
    by simp
  have l: "list_all2 (\<lambda>r (p, s, c, t).
           getitem r ''plate'' = Inr p \<and> getitem r ''score'' = Inr s \<and>
           bind (getitem r ''region'') (\<lambda>x. getitem x ''code'') = Inr c \<and>
           bind (getitem r ''vehicle'') (\<lambda>x. getitem x ''type'') = Inr t)
         [ex_car, ex_van]
         [(JStr ''abc123'', JFloat ''0.904'', JStr ''gb'', JStr ''Sedan''),
          (JStr ''xy99zzz'', JFloat ''0.731'', JStr ''fr'', JStr ''Van'')]"
    by (simp add: ex_car_def ex_van_def)
  let ?ev1 = "ex_env ex_one ex_timeout"
  have p1: "post_json ?ev1 = Inr (JObj [(''results'', JList [ex_car])])"
    by (simp add: ex_env_def ex_one_def)
  have g1: "getitem (JObj [(''results'', JList [ex_car])]) ''results'' = Inr (JList [ex_car])"
    by simp
  have l1: "list_all2 (\<lambda>r (p, s, c, t).
           getitem r ''plate'' = Inr p \<and> getitem r ''score'' = Inr s \<and>
           bind (getitem r ''region'') (\<lambda>x. getitem x ''code'') = Inr c \<and>
           bind (getitem r ''vehicle'') (\<lambda>x. getitem x ''type'') = Inr t)
         [ex_car] [(JStr ''abc123'', JFloat ''0.904'', JStr ''gb'', JStr ''Sedan'')]"
    by (simp add: ex_car_def)
  show ?thesis
    using one_event_per_result [OF p g l, of "[1, 2, 3]" ex_world]
          one_event_per_result [OF p1 g1 l1, of "[1, 2, 3]" ex_world]
    by (simp add: ex_world_def ex_entity_def)
qed

text \<open>
  C5. When the POST answers a body whose \<open>results\<close> is the empty list, then after
  \<open>process_image\<close> the state is 0, the vehicle list is empty, no event has been fired and
  \<open>last_detection\<close> is what it was.
\<close>

theorem no_result_no_event:
  assumes "post_json ev = Inr body"
    and "getitem body ''results'' = Inr (JList [])"
  shows "state (self (fst (process_image ev pic w))) = Some 0 \<and>
         vehicles (self (fst (process_image ev pic w))) = [] \<and>
         fired (trace (fst (process_image ev pic w))) = fired (trace w) \<and>
         last_detection (self (fst (process_image ev pic w))) = last_detection (self w)"
proof -
  have r: "bind (post_json ev) (\<lambda>body. getitem body ''results'') = Inr (JList [])"
    using assms by simp
  have v: "bind (py_iter (JList [])) vehicles_of = Inr []" by simp
  note d = detect_ok [OF r v, of pic w]
  obtain s where s: "self (fst (process_image ev pic w)) = (self (detect ev pic w))\<lparr>statistics := s\<rparr>"
    using process_image_self by blast
  show ?thesis by (simp add: s d)
qed

theorem no_result_no_event_witness:
  "state (self (fst (process_image (ex_env ex_empty ex_timeout) [1, 2, 3] ex_world))) = Some 0 \<and>
   fired (trace (fst (process_image (ex_env ex_empty ex_timeout) [1, 2, 3] ex_world))) = [] \<and>
   last_detection (self (fst (process_image (ex_env ex_empty ex_timeout) [1, 2, 3] ex_world))) =
     Some ''2021-03-06_18-30-00''"
proof -
  let ?ev = "ex_env ex_empty ex_timeout"
  have p: "post_json ?ev = Inr (JObj [(''results'', JList [])])"
    by (simp add: ex_env_def ex_empty_def)
  have g: "getitem (JObj [(''results'', JList [])]) ''results'' = Inr (JList [])"
    by simp
  show ?thesis
    using no_result_no_event [OF p g, of "[1, 2, 3]" ex_world]
    by (simp add: ex_world_def ex_entity_def)
qed

section \<open>Saving\<close>

text \<open>
  C6, as amended. When the imaging library cannot identify the bytes as an image
  (\<open>UnidentifiedImageError\<close>, the one exception the source catches), \<open>save_image\<close>
  logs the warning and returns: no exception escapes, no file is written, and the entity
  and the heap are what they were. Any other exception of the decoding escapes, and no
  file is written either.
\<close>

theorem save_image_bad_data:
  "(image_open ev pic = Inl UnidentifiedImageError \<longrightarrow>
      snd (save_image ev pic w) = None \<and>
      trace (fst (save_image ev pic w)) =
        trace w @ [ImageOpen pic,
                   LogWarning ''platerecognizer unable to save image, bad data''] \<and>
      written (trace (fst (save_image ev pic w))) = written (trace w) \<and>
      self (fst (save_image ev pic w)) = self w \<and>
      heap (fst (save_image ev pic w)) = heap w) \<and>
   (image_open ev pic = Inl e \<and> e \<noteq> UnidentifiedImageError \<longrightarrow>
      snd (save_image ev pic w) = Some e \<and>
      written (trace (fst (save_image ev pic w))) = written (trace w))"
proof (intro conjI impI)
  assume u: "image_open ev pic = Inl UnidentifiedImageError"
  show "snd (save_image ev pic w) = None"
    by (simp add: save_image_unidentified [OF u])
  show "trace (fst (save_image ev pic w)) =
        trace w @ [ImageOpen pic,
                   LogWarning ''platerecognizer unable to save image, bad data'']"
    by (simp add: save_image_unidentified [OF u])
  show "written (trace (fst (save_image ev pic w))) = written (trace w)"
    by (simp add: save_image_unidentified [OF u])
  show "self (fst (save_image ev pic w)) = self w" by simp
  show "heap (fst (save_image ev pic w)) = heap w" by simp
next
  assume o: "image_open ev pic = Inl e \<and> e \<noteq> UnidentifiedImageError"
  then show "snd (save_image ev pic w) = Some e"
    by (simp add: save_image_def Let_def)
  from o show "written (trace (fst (save_image ev pic w))) = written (trace w)"
    by (simp add: save_image_def Let_def)
qed

theorem save_image_bad_data_witness:
  "snd (save_image (ex_env ex_empty ex_timeout) [] ex_world) = None \<and>
   written (trace (fst (save_image (ex_env ex_empty ex_timeout) [] ex_world))) = [] \<and>
   trace (fst (save_image (ex_env ex_empty ex_timeout) [] ex_world)) =
     [ImageOpen [], LogWarning ''platerecognizer unable to save image, bad data''] \<and>
   snd (save_image (ex_env ex_empty ex_timeout) [137, 80] ex_world) =
     Some (OSError ''image file is truncated'')"
proof -
  have a: "image_open (ex_env ex_empty ex_timeout) [] = Inl UnidentifiedImageError"
    by (simp add: ex_env_def)
  have b: "image_open (ex_env ex_empty ex_timeout) [137, 80] =
             Inl (OSError ''image file is truncated'') \<and>
           OSError ''image file is truncated'' \<noteq> UnidentifiedImageError"
    by (simp add: ex_env_def)
  show ?thesis
    using save_image_bad_data [of "ex_env ex_empty ex_timeout" "[]" ex_world] a
          save_image_bad_data [of "ex_env ex_empty ex_timeout" "[137, 80]" ex_world
                                  "OSError ''image file is truncated''"] b
    by (simp add: ex_world_def)
qed

section \<open>The clock and the sample construction\<close>

lemma strftime_ex_clock: "strftime ex_clock = ''2021-03-07_09-05-42''"
  by (simp add: strftime_def pad4_def pad2_def digit_def ex_clock_def)

lemma construct_ex_new:
  "construct ex_split (ex_env ex_empty ex_timeout) ''abc'' (Some ''/config/www'') True True
     ''camera.drive'' None = Inr ex_new"
  by (simp add: construct_def ex_split_def Let_def get_statistics_def fetch_statistics_def
        ex_env_def ex_timeout_def ex_new_def emit_def STATS_URL_def)

lemma is_digit_digit [simp]: "is_digit (digit n)"
proof -
  have "n mod 10 < length ''0123456789''" by simp
  then have "''0123456789'' ! (n mod 10) \<in> set ''0123456789''" by (rule nth_mem)
  then show ?thesis by (simp only: is_digit_def digit_def)
qed

lemma is_timestamp_strftime: "is_timestamp (strftime t)"
  by (simp add: strftime_def pad4_def pad2_def)

lemma not_timestamp_None: "\<not> is_timestamp ''None''"
  by simp


lemma save_image_returns:
  assumes "\<forall>p. img_save ev p = None"
    and "\<forall>e. image_open ev pic = Inl e \<longrightarrow> e = UnidentifiedImageError"
    and "save_file_folder (self w) \<noteq> None"
  shows "snd (save_image ev pic w) = None"
  using assms by (auto simp add: save_image_def Let_def split: sum.splits option.splits)

lemma process_image_returns:
  assumes "\<forall>p. img_save ev p = None"
    and "\<forall>e. image_open ev pic = Inl e \<longrightarrow> e = UnidentifiedImageError"
  shows "snd (process_image ev pic w) = None"
proof -
  let ?d = "detect ev pic w"
  from detect_frame [of ev pic w]
  have st: "state (self ?d) = Some (length (vehicles (self ?d)))" by simp
  show ?thesis
  proof (cases "save_file_folder (self ?d)")
    case None
    then show ?thesis by (simp add: process_image_def Let_def)
  next
    case (Some folder)
    then have "snd (save_image ev pic ?d) = None"
      using save_image_returns [OF assms, of ?d] by simp
    then show ?thesis
      by (auto simp add: process_image_def Let_def Some st split: prod.splits option.splits)
  qed
qed

section \<open>A failed recognition\<close>

lemma process_image_raises_post:
  assumes "bind (post_json ev) (\<lambda>body. getitem body ''results'') = Inl e"
  shows "state (self (fst (process_image ev pic w))) = Some 1 \<and>
         map ((!) (heap (fst (process_image ev pic w)))) (vehicles (self (fst (process_image ev pic w))))
           = [[]] \<and>
         last_detection (self (fst (process_image ev pic w))) = Some (strftime (now ev)) \<and>
         fired (trace (fst (process_image ev pic w))) = fired (trace w) @ [payload w []]"
proof -
  note d = detect_raises_post [OF assms, of pic w]
  obtain s where s: "self (fst (process_image ev pic w)) = (self (detect ev pic w))\<lparr>statistics := s\<rparr>"
    using process_image_self by blast
  show ?thesis by (simp add: s d nth_append)
qed

lemma process_image_raises_parse:
  assumes "bind (post_json ev) (\<lambda>body. getitem body ''results'') = Inr res"
    and "bind (py_iter res) vehicles_of = Inl e"
  shows "state (self (fst (process_image ev pic w))) = Some 1 \<and>
         map ((!) (heap (fst (process_image ev pic w)))) (vehicles (self (fst (process_image ev pic w))))
           = [[]] \<and>
         last_detection (self (fst (process_image ev pic w))) = Some (strftime (now ev)) \<and>
         fired (trace (fst (process_image ev pic w))) = fired (trace w) @ [payload w []]"
proof -
  note d = detect_raises_parse [OF assms, of pic w]
  obtain s where s: "self (fst (process_image ev pic w)) = (self (detect ev pic w))\<lparr>statistics := s\<rparr>"
    using process_image_self by blast
  show ?thesis by (simp add: s d nth_append)
qed

text \<open>
  C1. The POST times out while the entity holds the stamp of an earlier detection. The
  claim asks for state 0, an empty vehicle list and the earlier stamp. The source resets
  the vehicle list to \<^verbatim>\<open>[{}]\<close>, a list of one empty record, so the state is 1, the
  stamp is overwritten with the time of the failure and one event is fired, whose payload
  holds the entity id alone.
\<close>

theorem failed_post_counts_one_vehicle:
  "post_json (ex_env ex_timeout ex_timeout) = Inl (RequestError ''timed out'') \<and>
   last_detection (self ex_world) = Some ''2021-03-06_18-30-00'' \<and>
   fired (trace ex_world) = [] \<and>
   state (self (fst (process_image (ex_env ex_timeout ex_timeout) [1, 2, 3] ex_world))) = Some 1 \<and>
   map ((!) (heap (fst (process_image (ex_env ex_timeout ex_timeout) [1, 2, 3] ex_world))))
     (vehicles (self (fst (process_image (ex_env ex_timeout ex_timeout) [1, 2, 3] ex_world))))
     = [[]] \<and>
   last_detection (self (fst (process_image (ex_env ex_timeout ex_timeout) [1, 2, 3] ex_world)))
     = Some ''2021-03-07_09-05-42'' \<and>
   fired (trace (fst (process_image (ex_env ex_timeout ex_timeout) [1, 2, 3] ex_world)))
     = [[(''entity_id'', JStr ''image_processing.platerecognizer_drive'')]] \<and>
   snd (process_image (ex_env ex_timeout ex_timeout) [1, 2, 3] ex_world) = None"
proof -
  let ?ev = "ex_env ex_timeout ex_timeout"
  have p: "post_json ?ev = Inl (RequestError ''timed out'')"
    by (simp add: ex_env_def ex_timeout_def)
  then have b: "bind (post_json ?ev) (\<lambda>body. getitem body ''results'') =
                Inl (RequestError ''timed out'')"
    by simp
  have n: "strftime (now ?ev) = ''2021-03-07_09-05-42''"
    using strftime_ex_clock by (simp add: ex_env_def)
  have pl: "payload ex_world [] = [(''entity_id'', JStr ''image_processing.platerecognizer_drive'')]"
    by (simp add: payload_def dict_update_def ATTR_ENTITY_ID_def ex_world_def ex_entity_def)
  have e: "snd (process_image ?ev [1, 2, 3] ex_world) = None"
    by (rule process_image_returns) (simp_all add: ex_env_def)
  show ?thesis
    using process_image_raises_post [OF b, of "[1, 2, 3]" ex_world] p n pl e
    by (simp add: ex_world_def ex_entity_def)
qed

text \<open>
  C6 as first stated fails: a picture the library identifies but cannot load (a truncated
  file) makes the decoding raise an \<open>OSError\<close>, which \<open>save_image\<close> does not catch. The
  exception escapes and no warning is logged.
\<close>

theorem save_image_truncated_counterexample:
  "image_open (ex_env ex_empty ex_timeout) [137, 80] = Inl (OSError ''image file is truncated'') \<and>
   snd (save_image (ex_env ex_empty ex_timeout) [137, 80] ex_world) =
     Some (OSError ''image file is truncated'') \<and>
   trace (fst (save_image (ex_env ex_empty ex_timeout) [137, 80] ex_world)) =
     [ImageOpen [137, 80]]"
  by (simp add: save_image_def Let_def ex_env_def ex_world_def emit_def)

section \<open>The files written\<close>

lemma process_image_frame:
  "headers (self (fst (process_image ev pic w))) = headers (self w) \<and>
   camera (self (fst (process_image ev pic w))) = camera (self w) \<and>
   name (self (fst (process_image ev pic w))) = name (self w) \<and>
   save_file_folder (self (fst (process_image ev pic w))) = save_file_folder (self w) \<and>
   save_timestamped_file (self (fst (process_image ev pic w))) = save_timestamped_file (self w) \<and>
   always_save_latest_jpg (self (fst (process_image ev pic w))) = always_save_latest_jpg (self w) \<and>
   entity_id (self (fst (process_image ev pic w))) = entity_id (self w)"
proof -
  obtain s where s: "self (fst (process_image ev pic w)) = (self (detect ev pic w))\<lparr>statistics := s\<rparr>"
    using process_image_self by blast
  show ?thesis using detect_frame [of ev pic w] by (simp add: s)
qed

lemma process_image_last_detection:
  "last_detection (self (fst (process_image ev pic w))) = last_detection (self w) \<or>
   last_detection (self (fst (process_image ev pic w))) = Some (strftime (now ev))"
proof -
  obtain s where s: "self (fst (process_image ev pic w)) = (self (detect ev pic w))\<lparr>statistics := s\<rparr>"
    using process_image_self by blast
  show ?thesis
  proof (cases "bind (post_json ev) (\<lambda>body. getitem body ''results'')")
    case (Inl e)
    show ?thesis by (simp add: s detect_raises_post [OF Inl])
  next
    case (Inr res)
    show ?thesis
    proof (cases "bind (py_iter res) vehicles_of")
      case (Inl e)
      show ?thesis by (simp add: s detect_raises_parse [OF Inr Inl])
    next
      case ok: (Inr ds)
      show ?thesis by (simp add: s detect_ok [OF Inr ok])
    qed
  qed
qed

lemma process_image_empty_results:
  assumes "post_json ev = Inr body"
    and "getitem body ''results'' = Inr (JList [])"
  shows "state (self (detect ev pic w)) = Some 0 \<and>
         last_detection (self (detect ev pic w)) = last_detection (self w) \<and>
         written (trace (detect ev pic w)) = written (trace w) \<and>
         last_detection (self (fst (process_image ev pic w))) = last_detection (self w)"
proof -
  have r: "bind (post_json ev) (\<lambda>body. getitem body ''results'') = Inr (JList [])"
    using assms by simp
  have v: "bind (py_iter (JList [])) vehicles_of = Inr []" by simp
  note d = detect_ok [OF r v, of pic w]
  obtain s where s: "self (fst (process_image ev pic w)) = (self (detect ev pic w))\<lparr>statistics := s\<rparr>"
    using process_image_self by blast
  show ?thesis by (simp add: s d)
qed

lemma process_image_written:
  assumes "save_file_folder (self (detect ev pic w)) = Some folder"
    and "state (self (detect ev pic w)) = Some n"
    and "0 < n \<or> always_save_latest_jpg (self (detect ev pic w))"
  shows "written (trace (fst (process_image ev pic w))) =
         written (trace (fst (save_image ev pic (detect ev pic w))))"
proof -
  obtain w7 r where sv: "save_image ev pic (detect ev pic w) = (w7, r)" by fastforce
  show ?thesis using assms
    by (auto simp add: process_image_def Let_def sv split: option.splits)
qed

lemma save_image_written:
  assumes "image_open ev pic = Inr img" and "save_file_folder (self w) = Some folder"
    and "\<forall>p. img_save ev p = None"
  shows "written (trace (fst (save_image ev pic w))) =
         written (trace w) @
         Div folder (name (self w) @ ''_latest.png'') #
         (if save_timestamped_file (self w)
          then [Div folder (name (self w) @ ''_'' @ py_str (last_detection (self w)) @ ''.png'')]
          else [])"
  by (simp add: save_image_ok [OF assms])

lemma no_detection_files:
  assumes "post_json ev = Inr body"
    and "getitem body ''results'' = Inr (JList [])"
    and "save_file_folder (self w) = Some folder"
    and "always_save_latest_jpg (self w)"
    and "image_open ev pic = Inr img"
    and "\<forall>p. img_save ev p = None"
  shows "written (trace (fst (process_image ev pic w))) =
         written (trace w) @
         Div folder (name (self w) @ ''_latest.png'') #
         (if save_timestamped_file (self w)
          then [Div folder (name (self w) @ ''_'' @ py_str (last_detection (self w)) @ ''.png'')]
          else [])"
proof -
  let ?d = "detect ev pic w"
  note f = detect_frame [of ev pic w]
  note e = process_image_empty_results [OF assms(1,2), of pic w]
  have fo: "save_file_folder (self ?d) = Some folder" using f assms(3) by simp
  have st: "state (self ?d) = Some 0" using e by simp
  have al: "0 < (0::nat) \<or> always_save_latest_jpg (self ?d)" using f assms(4) by simp
  have "written (trace (fst (process_image ev pic w))) =
        written (trace (fst (save_image ev pic ?d)))"
    using fo st al by (rule process_image_written)
  also have "\<dots> = written (trace ?d) @
         Div folder (name (self ?d) @ ''_latest.png'') #
         (if save_timestamped_file (self ?d)
          then [Div folder (name (self ?d) @ ''_'' @ py_str (last_detection (self ?d)) @ ''.png'')]
          else [])"
    using assms(5) fo assms(6) by (rule save_image_written)
  finally show ?thesis using f e by simp
qed

text \<open>
  C7 as first stated fails. An entity is built for \<open>camera.drive\<close> with a save directory
  and both flags set; its first picture shows no vehicle. The save step writes the latest
  file and a second file named after \<open>last_detection\<close>, which is still None: the name
  ends in \<open>_None.png\<close>, and \<open>None\<close> is no timestamp.
\<close>

theorem timestamped_file_named_None_counterexample:
  "construct ex_split (ex_env ex_empty ex_timeout) ''abc'' (Some ''/config/www'') True True
     ''camera.drive'' None = Inr ex_new \<and>
   image_open (ex_env ex_empty ex_timeout) [1, 2, 3] = Inr (RGB [1, 2, 3]) \<and>
   save_timestamped_file (self ex_new) \<and>
   written (trace (fst (save_image (ex_env ex_empty ex_timeout) [1, 2, 3] ex_new))) =
     [Div ''/config/www'' ''platerecognizer_drive_latest.png'',
      Div ''/config/www'' ''platerecognizer_drive_None.png''] \<and>
   written (trace (fst (process_image (ex_env ex_empty ex_timeout) [1, 2, 3] ex_new))) =
     [Div ''/config/www'' ''platerecognizer_drive_latest.png'',
      Div ''/config/www'' ''platerecognizer_drive_None.png''] \<and>
   \<not> is_timestamp ''None''"
proof -
  let ?ev = "ex_env ex_empty ex_timeout"
  have o: "image_open ?ev [1, 2, 3] = Inr (RGB [1, 2, 3])" by (simp add: ex_env_def)
  have sv: "\<forall>p. img_save ?ev p = None" by (simp add: ex_env_def)
  have p: "post_json ?ev = Inr (JObj [(''results'', JList [])])"
    by (simp add: ex_env_def ex_empty_def)
  have g: "getitem (JObj [(''results'', JList [])]) ''results'' = Inr (JList [])" by simp
  have fo: "save_file_folder (self ex_new) = Some ''/config/www''" by (simp add: ex_new_def)
  have al: "always_save_latest_jpg (self ex_new)" by (simp add: ex_new_def)
  have a: "written (trace (fst (save_image ?ev [1, 2, 3] ex_new))) =
     [Div ''/config/www'' ''platerecognizer_drive_latest.png'',
      Div ''/config/www'' ''platerecognizer_drive_None.png'']"
    using save_image_written [OF o fo sv] by (simp add: ex_new_def)
  have b: "written (trace (fst (process_image ?ev [1, 2, 3] ex_new))) =
     [Div ''/config/www'' ''platerecognizer_drive_latest.png'',
      Div ''/config/www'' ''platerecognizer_drive_None.png'']"
    using no_detection_files [OF p g fo al o sv] by (simp add: ex_new_def)
  show ?thesis using construct_ex_new o a b not_timestamp_None by (simp add: ex_new_def)
qed

text \<open>
  C7, as amended. When the decoding succeeds (with a save directory set and writes that
  succeed), \<open>save_image\<close> returns after writing \<open>save_dir / name_latest.png\<close> and,
  exactly when the timestamped-save flag is set, \<open>save_dir / name_X.png\<close>, where \<open>X\<close> is
  the stored \<open>last_detection\<close> as text. That text is the word None until a detection has
  been stamped; a stamp is only ever set by \<open>process_image\<close>, to the clock's time in the
  format \<open>YYYY-MM-DD_HH-MM-SS\<close>.
\<close>

theorem save_image_files:
  assumes "image_open ev pic = Inr img"
    and "save_file_folder (self w) = Some folder"
    and "\<forall>p. img_save ev p = None"
  shows "snd (save_image ev pic w) = None \<and>
         written (trace (fst (save_image ev pic w))) =
           written (trace w) @
           Div folder (name (self w) @ ''_latest.png'') #
           (if save_timestamped_file (self w)
            then [Div folder (name (self w) @ ''_'' @ py_str (last_detection (self w)) @ ''.png'')]
            else []) \<and>
         py_str None = ''None'' \<and>
         (last_detection (self (fst (process_image ev2 pic2 w2))) = last_detection (self w2) \<or>
          last_detection (self (fst (process_image ev2 pic2 w2))) = Some (strftime (now ev2))) \<and>
         is_timestamp (strftime (now ev2))"
  using save_image_written [OF assms] process_image_last_detection [of ev2 pic2 w2]
    is_timestamp_strftime [of "now ev2"]
  by (simp add: save_image_ok [OF assms])

theorem save_image_files_witness:
  "snd (save_image (ex_env ex_empty ex_timeout) [1, 2, 3] ex_world) = None \<and>
   written (trace (fst (save_image (ex_env ex_empty ex_timeout) [1, 2, 3] ex_world))) =
     [Div ''/config/www'' ''platerecognizer_drive_latest.png'',
      Div ''/config/www'' ''platerecognizer_drive_2021-03-06_18-30-00.png''] \<and>
   is_timestamp ''2021-03-06_18-30-00''"
proof -
  let ?ev = "ex_env ex_empty ex_timeout"
  have o: "image_open ?ev [1, 2, 3] = Inr (RGB [1, 2, 3])" by (simp add: ex_env_def)
  have sv: "\<forall>p. img_save ?ev p = None" by (simp add: ex_env_def)
  have fo: "save_file_folder (self ex_world) = Some ''/config/www''"
    by (simp add: ex_world_def ex_entity_def)
  have t: "is_timestamp ''2021-03-06_18-30-00''" by (simp add: is_digit_def)
  show ?thesis
    using save_image_files [OF o fo sv, of ?ev "[1, 2, 3]" ex_world] t
    by (simp add: ex_world_def ex_entity_def)
qed

text \<open>
  C10. With the timestamped-save flag set, \<open>save_image\<close> names the second file after the
  \<open>last_detection\<close> it finds, whatever it is. When a picture shows no vehicle and the
  always-save flag triggers the save, that value is the one an earlier call left: for a
  stored stamp \<open>s\<close> the file is \<open>name_s.png\<close>, and when no detection has ever been
  stamped it is \<open>name_None.png\<close>. The value stays as it was, so the next such picture
  writes the same two files again.
\<close>

theorem timestamped_name_is_stored_last_detection:
  assumes "post_json ev = Inr body" and "getitem body ''results'' = Inr (JList [])"
    and "post_json ev2 = Inr body2" and "getitem body2 ''results'' = Inr (JList [])"
    and "save_file_folder (self w) = Some folder"
    and "always_save_latest_jpg (self w)" and "save_timestamped_file (self w)"
    and "image_open ev pic = Inr img" and "image_open ev2 pic2 = Inr img2"
    and "\<forall>p. img_save ev p = None" and "\<forall>p. img_save ev2 p = None"
  shows "(last_detection (self w) = Some s \<longrightarrow>
            written (trace (fst (save_image ev pic w))) =
              written (trace w) @
              [Div folder (name (self w) @ ''_latest.png''),
               Div folder (name (self w) @ ''_'' @ s @ ''.png'')] \<and>
            written (trace (fst (process_image ev pic w))) =
              written (trace w) @
              [Div folder (name (self w) @ ''_latest.png''),
               Div folder (name (self w) @ ''_'' @ s @ ''.png'')] \<and>
            written (trace (fst (process_image ev2 pic2 (fst (process_image ev pic w))))) =
              written (trace (fst (process_image ev pic w))) @
              [Div folder (name (self w) @ ''_latest.png''),
               Div folder (name (self w) @ ''_'' @ s @ ''.png'')] \<and>
            last_detection (self (fst (process_image ev pic w))) = Some s) \<and>
         (last_detection (self w) = None \<longrightarrow>
            written (trace (fst (save_image ev pic w))) =
              written (trace w) @
              [Div folder (name (self w) @ ''_latest.png''),
               Div folder (name (self w) @ ''_None.png'')] \<and>
            written (trace (fst (process_image ev pic w))) =
              written (trace w) @
              [Div folder (name (self w) @ ''_latest.png''),
               Div folder (name (self w) @ ''_None.png'')] \<and>
            written (trace (fst (process_image ev2 pic2 (fst (process_image ev pic w))))) =
              written (trace (fst (process_image ev pic w))) @
              [Div folder (name (self w) @ ''_latest.png''),
               Div folder (name (self w) @ ''_None.png'')] \<and>
            last_detection (self (fst (process_image ev pic w))) = None)"
proof -
  let ?w1 = "fst (process_image ev pic w)"
  note f = process_image_frame [of ev pic w]
  have ld: "last_detection (self ?w1) = last_detection (self w)"
    using process_image_empty_results [OF assms(1,2), of pic w] by simp
  have fo1: "save_file_folder (self ?w1) = Some folder" using f assms(5) by simp
  have al1: "always_save_latest_jpg (self ?w1)" using f assms(6) by simp
  have a: "written (trace (fst (save_image ev pic w))) =
           written (trace w) @
           [Div folder (name (self w) @ ''_latest.png''),
            Div folder (name (self w) @ ''_'' @ py_str (last_detection (self w)) @ ''.png'')]"
    using save_image_written [OF assms(8) assms(5) assms(10)] assms(7) by simp
  have b: "written (trace ?w1) =
           written (trace w) @
           [Div folder (name (self w) @ ''_latest.png''),
            Div folder (name (self w) @ ''_'' @ py_str (last_detection (self w)) @ ''.png'')]"
    using no_detection_files [OF assms(1,2,5,6,8,10)] assms(7) by simp
  have c: "written (trace (fst (process_image ev2 pic2 ?w1))) =
           written (trace ?w1) @
           [Div folder (name (self w) @ ''_latest.png''),
            Div folder (name (self w) @ ''_'' @ py_str (last_detection (self w)) @ ''.png'')]"
    using no_detection_files [OF assms(3,4) fo1 al1 assms(9,11)] assms(7) f ld by simp
  show ?thesis
  proof (intro conjI impI)
    assume s: "last_detection (self w) = Some s"
    show "written (trace (fst (save_image ev pic w))) =
              written (trace w) @
              [Div folder (name (self w) @ ''_latest.png''),
               Div folder (name (self w) @ ''_'' @ s @ ''.png'')]"
      using a by (simp add: s)
    show "written (trace ?w1) =
              written (trace w) @
              [Div folder (name (self w) @ ''_latest.png''),
               Div folder (name (self w) @ ''_'' @ s @ ''.png'')]"
      using b by (simp add: s)
    show "written (trace (fst (process_image ev2 pic2 ?w1))) =
              written (trace ?w1) @
              [Div folder (name (self w) @ ''_latest.png''),
               Div folder (name (self w) @ ''_'' @ s @ ''.png'')]"
      using c by (simp add: s)
    show "last_detection (self ?w1) = Some s" using ld s by simp
  next
    assume n: "last_detection (self w) = None"
    show "written (trace (fst (save_image ev pic w))) =
              written (trace w) @
              [Div folder (name (self w) @ ''_latest.png''),
               Div folder (name (self w) @ ''_None.png'')]"
      using a by (simp add: n)
    show "written (trace ?w1) =
              written (trace w) @
              [Div folder (name (self w) @ ''_latest.png''),
               Div folder (name (self w) @ ''_None.png'')]"
      using b by (simp add: n)
    show "written (trace (fst (process_image ev2 pic2 ?w1))) =
              written (trace ?w1) @
              [Div folder (name (self w) @ ''_latest.png''),
               Div folder (name (self w) @ ''_None.png'')]"
      using c by (simp add: n)
    show "last_detection (self ?w1) = None" using ld n by simp
  qed
qed

text \<open>Two pictures without a vehicle, first on an entity that holds the stamp of an earlier
  detection, then on a new entity.\<close>

theorem timestamped_name_is_stored_last_detection_witness:
  "written (trace (fst (process_image (ex_env ex_empty ex_timeout) [4, 5]
      (fst (process_image (ex_env ex_empty ex_timeout) [1, 2, 3] ex_world))))) =
     [Div ''/config/www'' ''platerecognizer_drive_latest.png'',
      Div ''/config/www'' ''platerecognizer_drive_2021-03-06_18-30-00.png'',
      Div ''/config/www'' ''platerecognizer_drive_latest.png'',
      Div ''/config/www'' ''platerecognizer_drive_2021-03-06_18-30-00.png''] \<and>
   written (trace (fst (process_image (ex_env ex_empty ex_timeout) [4, 5]
      (fst (process_image (ex_env ex_empty ex_timeout) [1, 2, 3] ex_new))))) =
     [Div ''/config/www'' ''platerecognizer_drive_latest.png'',
      Div ''/config/www'' ''platerecognizer_drive_None.png'',
      Div ''/config/www'' ''platerecognizer_drive_latest.png'',
      Div ''/config/www'' ''platerecognizer_drive_None.png'']"
proof -
  let ?ev = "ex_env ex_empty ex_timeout"
  have o: "image_open ?ev [1, 2, 3] = Inr (RGB [1, 2, 3])" by (simp add: ex_env_def)
  have o2: "image_open ?ev [4, 5] = Inr (RGB [4, 5])" by (simp add: ex_env_def)
  have sv: "\<forall>p. img_save ?ev p = None" by (simp add: ex_env_def)
  have p: "post_json ?ev = Inr (JObj [(''results'', JList [])])"
    by (simp add: ex_env_def ex_empty_def)
  have g: "getitem (JObj [(''results'', JList [])]) ''results'' = Inr (JList [])" by simp
  have fo: "save_file_folder (self ex_new) = Some ''/config/www''" by (simp add: ex_new_def)
  have al: "always_save_latest_jpg (self ex_new)" by (simp add: ex_new_def)
  have ts: "save_timestamped_file (self ex_new)" by (simp add: ex_new_def)
  have v: "written (trace ex_new) = [] \<and> name (self ex_new) = ''platerecognizer_drive'' \<and>
           last_detection (self ex_new) = None"
    by (simp add: ex_new_def)
  have fow: "save_file_folder (self ex_world) = Some ''/config/www''"
    by (simp add: ex_world_def ex_entity_def)
  have alw: "always_save_latest_jpg (self ex_world)" by (simp add: ex_world_def ex_entity_def)
  have tsw: "save_timestamped_file (self ex_world)" by (simp add: ex_world_def ex_entity_def)
  have vw: "written (trace ex_world) = [] \<and> name (self ex_world) = ''platerecognizer_drive'' \<and>
           last_detection (self ex_world) = Some ''2021-03-06_18-30-00''"
    by (simp add: ex_world_def ex_entity_def)
  show ?thesis
    using timestamped_name_is_stored_last_detection
            [OF p g p g fo al ts o o2 sv sv, of "''x''"] v
          timestamped_name_is_stored_last_detection
            [OF p g p g fow alw tsw o o2 sv sv, of "''2021-03-06_18-30-00''"] vw
    by simp
qed

section \<open>Construction\<close>

lemma construct_fields:
  assumes "construct sp ev api folder ts al cam nm = Inr w0"
  shows "heap w0 = [[]] \<and> vehicles (self w0) = [0] \<and> results (self w0) = JObj [] \<and>
         state (self w0) = None \<and> last_detection (self w0) = None \<and>
         save_file_folder (self w0) = folder \<and> save_timestamped_file (self w0) = ts \<and>
         always_save_latest_jpg (self w0) = al \<and> camera (self w0) = cam \<and>
         headers (self w0) = [(''Authorization'', ''Token '' @ api)] \<and>
         (nm \<noteq> None \<and> nm \<noteq> Some [] \<longrightarrow> name (self w0) = the nm) \<and>
         (nm = None \<or> nm = Some [] \<longrightarrow>
            (\<exists>parts. sp cam = Inr parts \<and> name (self w0) = ''platerecognizer_'' @ snd parts)) \<and>
         (fetch_statistics ev = Inl e \<longrightarrow> statistics (self w0) = JObj []) \<and>
         (fetch_statistics ev = Inr r \<longrightarrow> statistics (self w0) = r)"
proof -
  obtain n where w0: "w0 = get_statistics ev
       \<lparr>self = \<lparr>headers = [(''Authorization'', ''Token '' @ api)], camera = cam, name = n,
                 save_file_folder = folder, save_timestamped_file = ts,
                 always_save_latest_jpg = al, state = None, results = JObj [],
                 vehicles = [0], statistics = JObj [], last_detection = None,
                 entity_id = None\<rparr>,
        heap = [[]], trace = []\<rparr>"
    and n: "(nm \<noteq> None \<and> nm \<noteq> Some [] \<longrightarrow> n = the nm) \<and>
            (nm = None \<or> nm = Some [] \<longrightarrow>
               (\<exists>parts. sp cam = Inr parts \<and> n = ''platerecognizer_'' @ snd parts))"
    using assms
    by (auto simp add: construct_def Let_def bind_def split: sum.splits if_splits)
  let ?w = "\<lparr>self = \<lparr>headers = [(''Authorization'', ''Token '' @ api)], camera = cam, name = n,
                 save_file_folder = folder, save_timestamped_file = ts,
                 always_save_latest_jpg = al, state = None, results = JObj [],
                 vehicles = [0], statistics = JObj [], last_detection = None,
                 entity_id = None\<rparr>,
        heap = [[]], trace = []\<rparr>"
  obtain s where s: "self (get_statistics ev ?w) = (self ?w)\<lparr>statistics := s\<rparr>"
    using self_get_statistics by blast
  have f: "fetch_statistics ev = Inl e \<longrightarrow> statistics (self w0) = JObj []"
    by (simp add: w0 get_statistics_failure)
  have g: "fetch_statistics ev = Inr r \<longrightarrow> statistics (self w0) = r"
    by (simp add: w0 get_statistics_success)
  have h: "heap w0 = [[]]" by (simp add: w0)
  have fields: "vehicles (self w0) = [0] \<and> results (self w0) = JObj [] \<and>
         state (self w0) = None \<and> last_detection (self w0) = None \<and>
         save_file_folder (self w0) = folder \<and> save_timestamped_file (self w0) = ts \<and>
         always_save_latest_jpg (self w0) = al \<and> camera (self w0) = cam \<and>
         headers (self w0) = [(''Authorization'', ''Token '' @ api)]"
    using s by (simp add: w0)
  have nmw: "name (self w0) = n" using s by (simp add: w0)
  have n1: "nm \<noteq> None \<and> nm \<noteq> Some [] \<longrightarrow> name (self w0) = the nm"
    using n unfolding nmw by blast
  have n2: "nm = None \<or> nm = Some [] \<longrightarrow>
            (\<exists>parts. sp cam = Inr parts \<and> name (self w0) = ''platerecognizer_'' @ snd parts)"
    using n unfolding nmw by blast
  show ?thesis using fields f g h n1 n2 by blast
qed

lemma construct_returns:
  "nm \<noteq> None \<and> nm \<noteq> Some [] \<or> sp cam = Inr parts \<Longrightarrow>
   \<exists>w0. construct sp ev api folder ts al cam nm = Inr w0"
  by (auto simp add: construct_def Let_def)

lemma construct_fetches_once:
  assumes "construct sp ev api folder ts al cam nm = Inr w0"
  shows "filter (\<lambda>x. case x of HttpGet u h \<Rightarrow> True | _ \<Rightarrow> False) (trace w0) =
           [HttpGet ''https://api.platerecognizer.com/v1/statistics/''
              [(''Authorization'', ''Token '' @ api)]]"
  using assms
  by (auto simp add: construct_def Let_def bind_def get_statistics_def emit_def STATS_URL_def
        split: sum.splits if_splits)

text \<open>
  C8. An entity is built for \<open>camera.drive\<close> without a name while the statistics request
  times out. The construction returns, the name is the prefix, an underscore and the
  camera name, the results and the statistics are empty dictionaries and one GET has been
  made. The vehicle list is not empty: the source sets it to \<^verbatim>\<open>[{}]\<close>, a list of one
  empty record, and that is what the attributes show.
\<close>

theorem new_entity_holds_one_empty_vehicle:
  "construct ex_split (ex_env ex_empty ex_timeout) ''abc'' (Some ''/config/www'') True True
     ''camera.drive'' None = Inr ex_new \<and>
   name (self ex_new) = ''platerecognizer_drive'' \<and>
   results (self ex_new) = JObj [] \<and>
   statistics (self ex_new) = JObj [] \<and>
   state (self ex_new) = None \<and>
   map ((!) (heap ex_new)) (vehicles (self ex_new)) = [[]] \<and>
   length (vehicles (self ex_new)) = 1 \<and>
   vehicles (self ex_new) \<noteq> [] \<and>
   map_of (device_state_attributes ex_new) ''vehicles'' = Some (JList [JObj []])"
  using construct_ex_new by (simp add: ex_new_def device_state_attributes_def)

section \<open>The vehicle records and the events\<close>

lemma vehicle_of_keys: "vehicle_of r = Inr d \<Longrightarrow> map_of d ''entity_id'' = None"
  by (auto simp add: vehicle_of_def bind_def ATTR_PLATE_def ATTR_CONFIDENCE_def
        ATTR_REGION_CODE_def ATTR_VEHICLE_TYPE_def split: sum.splits)

lemma vehicles_of_keys:
  "vehicles_of rs = Inr ds \<Longrightarrow> \<forall>d \<in> set ds. map_of d ''entity_id'' = None"
proof (induction rs arbitrary: ds)
  case Nil
  then show ?case by simp
next
  case (Cons r rs)
  from Cons.prems obtain v vs where
    v: "vehicle_of r = Inr v" and vs: "vehicles_of rs = Inr vs" and ds: "ds = v # vs"
    by (auto simp add: bind_def split: sum.splits)
  show ?case using vehicle_of_keys [OF v] Cons.IH [OF vs] ds by simp
qed

lemma iterated_vehicles_of:
  "bind (py_iter res) vehicles_of = Inr ds \<Longrightarrow> \<exists>rs. vehicles_of rs = Inr ds"
  by (cases "py_iter res") auto

lemma nth_fresh_rest:
  "map ((!) (h @ ds @ rest)) [length h ..< length h + length ds] = ds"
proof -
  have "map ((!) (h @ ds @ rest)) [length h ..< length h + length ds] =
        map ((!) (h @ ds)) [length h ..< length h + length ds]"
    by (rule map_cong) (auto simp add: nth_append)
  then show ?thesis by (simp only: nth_fresh)
qed

lemma detect_ok_vehicle_dicts:
  assumes "bind (post_json ev) (\<lambda>body. getitem body ''results'') = Inr res"
    and "bind (py_iter res) vehicles_of = Inr ds"
  shows "map ((!) (heap (detect ev pic w))) (vehicles (self (detect ev pic w))) = ds"
proof -
  let ?h = "heap w @ [[]]"
  have "map ((!) (?h @ ds @ map (payload w) ds)) [length ?h ..< length ?h + length ds] = ds"
    by (rule nth_fresh_rest)
  then show ?thesis
    by (simp add: detect_ok [OF assms] del: upt_Suc)
qed

lemma detect_vehicle_dicts:
  "\<forall>v \<in> set (map ((!) (heap (detect ev pic w))) (vehicles (self (detect ev pic w)))).
      map_of v ''entity_id'' = None"
proof (cases "bind (post_json ev) (\<lambda>body. getitem body ''results'')")
  case (Inl e)
  show ?thesis by (simp add: detect_raises_post [OF Inl] nth_append)
next
  case (Inr res)
  show ?thesis
  proof (cases "bind (py_iter res) vehicles_of")
    case (Inl e)
    show ?thesis by (simp add: detect_raises_parse [OF Inr Inl] nth_append)
  next
    case ok: (Inr ds)
    obtain rs where "vehicles_of rs = Inr ds" using iterated_vehicles_of [OF ok] by blast
    then show ?thesis unfolding detect_ok_vehicle_dicts [OF Inr ok] by (rule vehicles_of_keys)
  qed
qed

lemma process_image_vehicle_dicts:
  "map ((!) (heap (fst (process_image ev pic w)))) (vehicles (self (fst (process_image ev pic w)))) =
   map ((!) (heap (detect ev pic w))) (vehicles (self (detect ev pic w)))"
proof -
  obtain s where s: "self (fst (process_image ev pic w)) = (self (detect ev pic w))\<lparr>statistics := s\<rparr>"
    using process_image_self by blast
  show ?thesis by (simp add: s)
qed

lemma device_state_attributes_vehicles:
  "map_of (device_state_attributes w) ''vehicles'' =
     Some (JList (map JObj (map ((!) (heap w)) (vehicles (self w)))))"
  by (simp add: device_state_attributes_def)

text \<open>
  C9. \<open>fire_vehicle_detected_event\<close> leaves every dictionary that was on the heap as it
  was, the vehicle record it is given among them: the entity id goes into a new
  dictionary, which is what the bus receives. And the vehicle list that
  \<open>device_state_attributes\<close> shows, after a construction or after any
  \<open>process_image\<close>, holds no record with an \<open>entity_id\<close> key, while every payload fired
  by that \<open>process_image\<close> holds one.
\<close>

theorem event_payload_is_a_copy:
  "(a < length (heap w) \<longrightarrow>
      heap (fire_vehicle_detected_event a w) ! a = heap w ! a \<and>
      take (length (heap w)) (heap (fire_vehicle_detected_event a w)) = heap w \<and>
      self (fire_vehicle_detected_event a w) = self w \<and>
      events (trace (fire_vehicle_detected_event a w)) =
        events (trace w) @
        [(''platerecognizer.vehicle_detected'',
          dict_update ''entity_id'' (opt_json (entity_id (self w))) (heap w ! a))]) \<and>
   (\<exists>vs. map_of (device_state_attributes (fst (process_image ev pic w))) ''vehicles'' =
            Some (JList (map JObj vs)) \<and>
         (\<forall>v \<in> set vs. map_of v ''entity_id'' = None)) \<and>
   (construct sp ev api folder ts al cam nm = Inr w0 \<longrightarrow>
      (\<exists>vs. map_of (device_state_attributes w0) ''vehicles'' = Some (JList (map JObj vs)) \<and>
            (\<forall>v \<in> set vs. map_of v ''entity_id'' = None)))"
proof (intro conjI impI)
  assume "a < length (heap w)"
  then show "heap (fire_vehicle_detected_event a w) ! a = heap w ! a"
    by (simp add: fire_vehicle_detected_event_eq nth_append)
  show "take (length (heap w)) (heap (fire_vehicle_detected_event a w)) = heap w"
    by (simp add: fire_vehicle_detected_event_eq)
  show "self (fire_vehicle_detected_event a w) = self w"
    by (simp add: fire_vehicle_detected_event_eq)
  show "events (trace (fire_vehicle_detected_event a w)) =
        events (trace w) @
        [(''platerecognizer.vehicle_detected'',
          dict_update ''entity_id'' (opt_json (entity_id (self w))) (heap w ! a))]"
    by (simp add: fire_vehicle_detected_event_eq ATTR_ENTITY_ID_def EVENT_VEHICLE_DETECTED_def)
next
  let ?w = "fst (process_image ev pic w)"
  let ?vs = "map ((!) (heap ?w)) (vehicles (self ?w))"
  have "\<forall>v \<in> set ?vs. map_of v ''entity_id'' = None"
    unfolding process_image_vehicle_dicts by (rule detect_vehicle_dicts)
  then show "\<exists>vs. map_of (device_state_attributes ?w) ''vehicles'' = Some (JList (map JObj vs)) \<and>
         (\<forall>v \<in> set vs. map_of v ''entity_id'' = None)"
    using device_state_attributes_vehicles [of ?w] by blast
next
  assume c: "construct sp ev api folder ts al cam nm = Inr w0"
  have "map ((!) (heap w0)) (vehicles (self w0)) = [[]]"
    using construct_fields [OF c] by simp
  then show "\<exists>vs. map_of (device_state_attributes w0) ''vehicles'' = Some (JList (map JObj vs)) \<and>
            (\<forall>v \<in> set vs. map_of v ''entity_id'' = None)"
    using device_state_attributes_vehicles [of w0] by (intro exI [of _ "[[]]"]) simp
qed

text \<open>Firing the event for the record at address 0 leaves it with its four keys; a new
  entity shows one empty record; after a picture with two vehicles the attributes show the
  two records, without the entity id that the two payloads carry.\<close>

theorem event_payload_is_a_copy_witness:
  "heap (fire_vehicle_detected_event 0 ex_seen) ! 0 =
     [(''plate'', JStr ''abc123''), (''confidence'', JFloat ''0.904''),
      (''region_code'', JStr ''gb''), (''vehicle_type'', JStr ''Sedan'')] \<and>
   events (trace (fire_vehicle_detected_event 0 ex_seen)) =
     [(''platerecognizer.vehicle_detected'',
       [(''plate'', JStr ''abc123''), (''confidence'', JFloat ''0.904''),
        (''region_code'', JStr ''gb''), (''vehicle_type'', JStr ''Sedan''),
        (''entity_id'', JStr ''image_processing.platerecognizer_drive'')])] \<and>
   map_of (device_state_attributes ex_new) ''vehicles'' = Some (JList [JObj []]) \<and>
   map_of (device_state_attributes
             (fst (process_image (ex_env ex_two ex_timeout) [1, 2, 3] ex_world))) ''vehicles'' =
     Some (JList
       [JObj [(''plate'', JStr ''abc123''), (''confidence'', JFloat ''0.904''),
              (''region_code'', JStr ''gb''), (''vehicle_type'', JStr ''Sedan'')],
        JObj [(''plate'', JStr ''xy99zzz''), (''confidence'', JFloat ''0.731''),
              (''region_code'', JStr ''fr''), (''vehicle_type'', JStr ''Van'')]])"
proof -
  let ?ev = "ex_env ex_two ex_timeout"
  have h: "0 < length (heap ex_seen)" by (simp add: ex_seen_def)
  have c: "construct ex_split (ex_env ex_empty ex_timeout) ''abc'' (Some ''/config/www'') True
             True ''camera.drive'' None = Inr ex_new"
    by (rule construct_ex_new)
  note t = event_payload_is_a_copy
             [where a = 0 and w = ex_seen and ?w0.0 = ex_new and sp = ex_split and
                    ev = "ex_env ex_empty ex_timeout" and api = "''abc''" and
                    folder = "Some ''/config/www''" and ts = True and al = True and
                    cam = "''camera.drive''" and nm = None]
  have a: "heap (fire_vehicle_detected_event 0 ex_seen) ! 0 = heap ex_seen ! 0 \<and>
           events (trace (fire_vehicle_detected_event 0 ex_seen)) =
             events (trace ex_seen) @
             [(''platerecognizer.vehicle_detected'',
               dict_update ''entity_id'' (opt_json (entity_id (self ex_seen))) (heap ex_seen ! 0))]"
    using t h by blast
  have "\<exists>vs. map_of (device_state_attributes ex_new) ''vehicles'' = Some (JList (map JObj vs)) \<and>
            (\<forall>v \<in> set vs. map_of v ''entity_id'' = None)"
    using t c by blast
  have n: "map_of (device_state_attributes ex_new) ''vehicles'' = Some (JList [JObj []])"
    by (simp add: device_state_attributes_def ex_new_def)
  have p: "bind (post_json ?ev) (\<lambda>body. getitem body ''results'') = Inr (JList [ex_car, ex_van])"
    by (simp add: ex_env_def ex_two_def)
  have l: "list_all2 (\<lambda>r (p, s, c, t).
           getitem r ''plate'' = Inr p \<and> getitem r ''score'' = Inr s \<and>
           bind (getitem r ''region'') (\<lambda>x. getitem x ''code'') = Inr c \<and>
           bind (getitem r ''vehicle'') (\<lambda>x. getitem x ''type'') = Inr t)
         [ex_car, ex_van]
         [(JStr ''abc123'', JFloat ''0.904'', JStr ''gb'', JStr ''Sedan''),
          (JStr ''xy99zzz'', JFloat ''0.731'', JStr ''fr'', JStr ''Van'')]"
    by (simp add: ex_car_def ex_van_def)
  have v: "bind (py_iter (JList [ex_car, ex_van])) vehicles_of =
           Inr [[(''plate'', JStr ''abc123''), (''confidence'', JFloat ''0.904''),
                 (''region_code'', JStr ''gb''), (''vehicle_type'', JStr ''Sedan'')],
                [(''plate'', JStr ''xy99zzz''), (''confidence'', JFloat ''0.731''),
                 (''region_code'', JStr ''fr''), (''vehicle_type'', JStr ''Van'')]]"
    using vehicles_of_entries [OF l] by simp
  have d: "map_of (device_state_attributes (fst (process_image ?ev [1, 2, 3] ex_world)))
             ''vehicles'' =
     Some (JList
       [JObj [(''plate'', JStr ''abc123''), (''confidence'', JFloat ''0.904''),
              (''region_code'', JStr ''gb''), (''vehicle_type'', JStr ''Sedan'')],
        JObj [(''plate'', JStr ''xy99zzz''), (''confidence'', JFloat ''0.731''),
              (''region_code'', JStr ''fr''), (''vehicle_type'', JStr ''Van'')]])"
    unfolding device_state_attributes_vehicles process_image_vehicle_dicts
      detect_ok_vehicle_dicts [OF p v]
    by simp
  show ?thesis using a n d
    by (simp add: ex_seen_def ex_entity_def dict_update_def)
qed

end
